theory Spec2Isabelle
  imports Complex_Main "HOL-Library.Sublist" "HOL-Library.Multiset"
begin

section \<open>Kinematic chain calibration: data model\<close>

text \<open>
  The development follows \<^verbatim>\<open>src/kinova_tracking/kinematic_chain_calibration.py\<close>.
  Numpy's float64 scalars are idealised as real numbers, a one-dimensional array is a
  list, and every Python exception the modelled code can raise is a value of
  \<open>py_error\<close>, returned on the left of a sum.
\<close>

datatype py_error =
    ValueError
  | IndexError
  | RuntimeError
  | TypeError
  | UnboundLocalError
  | AttributeError

type_synonym vec = "real list"

text \<open>Sequencing: an exception raised by a step is the result of the whole.\<close>

fun bind_err :: "py_error + 'a \<Rightarrow> ('a \<Rightarrow> py_error + 'b) \<Rightarrow> py_error + 'b" where
  "bind_err (Inl e) f = Inl e"
| "bind_err (Inr v) f = f v"

text \<open>Two- and three-dimensional numpy arrays: the shape and the cells.\<close>

record array2 =
  nrows :: nat
  ncols :: nat
  cell :: "nat \<Rightarrow> nat \<Rightarrow> real"

record array3 =
  dim0 :: nat
  dim1 :: nat
  dim2 :: nat
  cell3 :: "nat \<Rightarrow> nat \<Rightarrow> nat \<Rightarrow> real"

subsection \<open>Python and numpy primitives\<close>

text \<open>\<^verbatim>\<open>xs[i]\<close> for a non-negative index.\<close>

definition py_nth :: "'a list \<Rightarrow> nat \<Rightarrow> py_error + 'a" where
  "py_nth xs i = (if i < length xs then Inr (xs ! i) else Inl IndexError)"

text \<open>\<^verbatim>\<open>xs.index(v)\<close>: the first position of \<open>v\<close>, ValueError when absent.\<close>

fun index_from :: "nat \<Rightarrow> 'a list \<Rightarrow> 'a \<Rightarrow> py_error + nat" where
  "index_from k [] v = Inl ValueError"
| "index_from k (x # xs) v = (if x = v then Inr k else index_from (Suc k) xs v)"

definition py_index :: "'a list \<Rightarrow> 'a \<Rightarrow> py_error + nat" where
  "py_index xs v = index_from 0 xs v"

text \<open>\<^verbatim>\<open>v[a:b]\<close> on a list or a one-dimensional array: slices truncate silently.\<close>

definition py_slice :: "'a list \<Rightarrow> nat \<Rightarrow> nat \<Rightarrow> 'a list" where
  "py_slice v a b = drop a (take b v)"

text \<open>\<^verbatim>\<open>sub in s\<close> on strings.\<close>

definition str_contains :: "string \<Rightarrow> string \<Rightarrow> bool" where
  "str_contains sub s = sublist sub s"

text \<open>\<^verbatim>\<open>a[idx]\<close> with a list of indices (fancy indexing) on a one-dimensional array.\<close>

definition np_take :: "vec \<Rightarrow> nat list \<Rightarrow> py_error + vec" where
  "np_take a idx =
     (if list_all (\<lambda>i. i < length a) idx then Inr (map (\<lambda>i. a ! i) idx) else Inl IndexError)"

text \<open>
  \<^verbatim>\<open>a[idx] = v\<close>: the value must have the shape of the index or be a single element
  that is broadcast; with a repeated index the last assignment stays.
\<close>

definition np_put :: "vec \<Rightarrow> nat list \<Rightarrow> vec \<Rightarrow> py_error + vec" where
  "np_put a idx v =
     (if length v \<noteq> length idx \<and> length v \<noteq> 1 then Inl ValueError
      else if list_ex (\<lambda>i. length a \<le> i) idx then Inl IndexError
      else if length v = length idx
        then Inr (fold (\<lambda>(i, y) b. b[i := y]) (zip idx v) a)
        else Inr (fold (\<lambda>i b. b[i := hd v]) idx a))"

text \<open>
  Element-wise arithmetic of two one-dimensional arrays: equal lengths, or one operand of
  length one that is broadcast, or ValueError.
\<close>

definition np_binop :: "(real \<Rightarrow> real \<Rightarrow> real) \<Rightarrow> vec \<Rightarrow> vec \<Rightarrow> py_error + vec" where
  "np_binop f a b =
     (if length a = length b then Inr (map2 f a b)
      else if length a = 1 then Inr (map (f (hd a)) b)
      else if length b = 1 then Inr (map (\<lambda>x. f x (hd b)) a)
      else Inl ValueError)"

text \<open>\<^verbatim>\<open>a[:, j]\<close>, \<^verbatim>\<open>a[:r, j]\<close> and \<^verbatim>\<open>a[idx, j]\<close> on a two-dimensional array.\<close>

definition col :: "array2 \<Rightarrow> nat \<Rightarrow> py_error + vec" where
  "col a j =
     (if j < ncols a then Inr (map (\<lambda>i. cell a i j) [0..<nrows a]) else Inl IndexError)"

definition col_upto :: "array2 \<Rightarrow> nat \<Rightarrow> nat \<Rightarrow> py_error + vec" where
  "col_upto a r j =
     (if j < ncols a then Inr (map (\<lambda>i. cell a i j) [0..<min r (nrows a)])
      else Inl IndexError)"

definition col_take :: "array2 \<Rightarrow> nat list \<Rightarrow> nat \<Rightarrow> py_error + vec" where
  "col_take a idx j =
     (if j < ncols a \<and> list_all (\<lambda>i. i < nrows a) idx then Inr (map (\<lambda>i. cell a i j) idx)
      else Inl IndexError)"

text \<open>\<^verbatim>\<open>a[idx, j] = v\<close> on a two-dimensional array.\<close>

definition col_put :: "array2 \<Rightarrow> nat list \<Rightarrow> nat \<Rightarrow> vec \<Rightarrow> py_error + array2" where
  "col_put a idx j v =
     (if length v \<noteq> length idx \<and> length v \<noteq> 1 then Inl ValueError
      else if ncols a \<le> j \<or> list_ex (\<lambda>i. nrows a \<le> i) idx then Inl IndexError
      else if length v = length idx
        then Inr (a\<lparr>cell := fold (\<lambda>(i, y) c. c(i := (c i)(j := y))) (zip idx v) (cell a)\<rparr>)
        else Inr (a\<lparr>cell := fold (\<lambda>i c. c(i := (c i)(j := hd v))) idx (cell a)\<rparr>))"

text \<open>\<^verbatim>\<open>m[:, idx, f]\<close> and \<^verbatim>\<open>m[:, :, f]\<close> on a three-dimensional array.\<close>

definition frame_take :: "array3 \<Rightarrow> nat list \<Rightarrow> nat \<Rightarrow> py_error + array2" where
  "frame_take m idx f =
     (if f < dim2 m \<and> list_all (\<lambda>j. j < dim1 m) idx
      then Inr \<lparr>nrows = dim0 m, ncols = length idx, cell = (\<lambda>i j. cell3 m i (idx ! j) f)\<rparr>
      else Inl IndexError)"

definition frame_all :: "array3 \<Rightarrow> nat \<Rightarrow> py_error + array2" where
  "frame_all m f =
     (if f < dim2 m
      then Inr \<lparr>nrows = dim0 m, ncols = dim1 m, cell = (\<lambda>i j. cell3 m i j f)\<rparr>
      else Inl IndexError)"

text \<open>\<^verbatim>\<open>xs[-1]\<close>.\<close>

definition py_last :: "'a list \<Rightarrow> py_error + 'a" where
  "py_last xs = (if xs = [] then Inl IndexError else Inr (last xs))"

text \<open>\<^verbatim>\<open>m[:, a:b, f]\<close>: the slice of the middle axis truncates, the frame index does not.\<close>

definition frame_slice :: "array3 \<Rightarrow> nat \<Rightarrow> nat \<Rightarrow> nat \<Rightarrow> py_error + array2" where
  "frame_slice m a b f =
     (if f < dim2 m
      then Inr \<lparr>nrows = dim0 m, ncols = min b (dim1 m) - a, cell = (\<lambda>i j. cell3 m i (a + j) f)\<rparr>
      else Inl IndexError)"

text \<open>\<^verbatim>\<open>np.linalg.norm\<close> of a one-dimensional array.\<close>

definition linalg_norm :: "vec \<Rightarrow> real" where
  "linalg_norm v = sqrt (\<Sum>c \<leftarrow> v. c ^ 2)"

text \<open>Two-dimensional helpers: zeros, a scaled copy, stacking along axis 0, a row.\<close>

definition np_zeros2 :: "nat \<Rightarrow> nat \<Rightarrow> array2" where
  "np_zeros2 r c = \<lparr>nrows = r, ncols = c, cell = (\<lambda>i j. 0)\<rparr>"

definition scale_array :: "array2 \<Rightarrow> real \<Rightarrow> array2" where
  "scale_array a w = a\<lparr>cell := (\<lambda>i j. cell a i j * w)\<rparr>"

definition vstack2 :: "array2 \<Rightarrow> array2 \<Rightarrow> array2" where
  "vstack2 a b =
     \<lparr>nrows = nrows a + nrows b, ncols = ncols a,
      cell = (\<lambda>i j. if i < nrows a then cell a i j else cell b (i - nrows a) j)\<rparr>"

text \<open>
  \<^verbatim>\<open>np.concatenate(blocks, axis=0)\<close>: the blocks must agree on the number of columns.
\<close>

fun np_concatenate :: "array2 list \<Rightarrow> py_error + array2" where
  "np_concatenate [] = Inl ValueError"
| "np_concatenate [a] = Inr a"
| "np_concatenate (a # b # rest) =
     bind_err (np_concatenate (b # rest)) (\<lambda>r.
     if ncols a = ncols r then Inr (vstack2 a r) else Inl ValueError)"

definition row :: "array2 \<Rightarrow> nat \<Rightarrow> py_error + vec" where
  "row a i =
     (if i < nrows a then Inr (map (\<lambda>j. cell a i j) [0..<ncols a]) else Inl IndexError)"

text \<open>\<^verbatim>\<open>a[:, idx]\<close> and \<^verbatim>\<open>m[:, :, idx]\<close>.\<close>

definition cols_take :: "array2 \<Rightarrow> nat list \<Rightarrow> py_error + array2" where
  "cols_take a idx =
     (if list_all (\<lambda>j. j < ncols a) idx
      then Inr \<lparr>nrows = nrows a, ncols = length idx, cell = (\<lambda>i j. cell a i (idx ! j))\<rparr>
      else Inl IndexError)"

definition frames_take :: "array3 \<Rightarrow> nat list \<Rightarrow> py_error + array3" where
  "frames_take m idx =
     (if list_all (\<lambda>f. f < dim2 m) idx
      then Inr \<lparr>dim0 = dim0 m, dim1 = dim1 m, dim2 = length idx,
                cell3 = (\<lambda>i j f. cell3 m i j (idx ! f))\<rparr>
      else Inl IndexError)"

text \<open>
  \<^verbatim>\<open>a[idx, :] = v\<close> for a two-dimensional value \<open>v\<close>: each axis of the value must
  have the extent of the target or extent one. With a repeated index the last row stays.
\<close>

definition rows_put :: "array2 \<Rightarrow> nat list \<Rightarrow> array2 \<Rightarrow> py_error + array2" where
  "rows_put a idx v =
     (if \<not> ((nrows v = length idx \<or> nrows v = 1) \<and> (ncols v = ncols a \<or> ncols v = 1))
        then Inl ValueError
      else if list_ex (\<lambda>i. nrows a \<le> i) idx then Inl IndexError
      else Inr (a\<lparr>cell :=
             fold (\<lambda>k c. c((idx ! k) :=
                     (\<lambda>j. if j < ncols a
                          then cell v (if nrows v = 1 then 0 else k) (if ncols v = 1 then 0 else j)
                          else c (idx ! k) j)))
                  [0..<length idx] (cell a)\<rparr>))"

text \<open>
  \<^verbatim>\<open>np.array([x] * n).T\<close> as a value for \<^verbatim>\<open>a[idx, :] = ...\<close>: one row per entry
  of \<open>x\<close>, \<open>n\<close> equal columns. For \<open>n = 0\<close> numpy builds an empty one-dimensional array,
  which fits a target without columns only; it is rendered as a value with no column and
  as many rows as the target has.
\<close>

definition repeated_columns :: "vec \<Rightarrow> nat \<Rightarrow> nat \<Rightarrow> array2" where
  "repeated_columns x n target_rows =
     (if n = 0 then \<lparr>nrows = target_rows, ncols = 0, cell = (\<lambda>i j. 0)\<rparr>
      else \<lparr>nrows = length x, ncols = n, cell = (\<lambda>i j. x ! i)\<rparr>)"

subsection \<open>The kinematic model (external collaborator)\<close>

text \<open>
  What the code asks of \<^verbatim>\<open>biorbd.Model\<close>: the dof and marker names, the number of
  generalized coordinates, markers and segments, the marker positions at a pose (one
  3-D point per marker) and the rotation part of a segment's global frame at a pose.
\<close>

record biorbd =
  nameDof :: "string list"
  markerNames :: "string list"
  nbQ :: nat
  nbMarkers :: nat
  nbSegment :: nat
  markers_at :: "vec \<Rightarrow> (real \<times> real \<times> real) list"
  globalJCS_rot :: "vec \<Rightarrow> int \<Rightarrow> nat \<Rightarrow> nat \<Rightarrow> real"

definition to_array :: "real \<times> real \<times> real \<Rightarrow> vec" where
  "to_array v = (case v of (a, b, c) \<Rightarrow> [a, b, c])"

subsection \<open>The calibration object\<close>

record kcc =
  biorbd_model :: biorbd
  model_dofs :: "string list"
  nb_markers :: nat
  nb_frames :: nat
  markers_model :: "string list"
  markers :: array3
  closed_loop_markers :: "string list"
  tracked_markers :: "string list"
  parameter_dofs :: "string list"
  kinematic_dofs :: "string list"
  table_markers_idx :: "nat list"
  model_markers_idx :: "nat list"
  nb_markers_table :: nat
  nb_markers_model :: nat
  q_parameter_index :: "nat list"
  q_kinematic_index :: "nat list"
  nb_parameters_dofs :: nat
  nb_kinematic_dofs :: nat
  param_solver :: string
  ik_solver :: string
  q_ik_initial_guess :: array2
  nb_frames_ik_step :: nat
  nb_frames_param_step :: "int option"
  randomize_param_step_frames :: bool
  use_analytical_jacobians :: bool
  list_frames_param_step :: "nat list"
  weights_param :: vec
  weights_ik :: vec
  weight_list_param :: vec
  weight_list_ik :: vec
  segment_id_with_vertical_z :: "int option"

section \<open>Construction\<close>

subsection \<open>Frame selection\<close>

text \<open>
  \<^verbatim>\<open>random.sample(population, k)\<close> of the Python standard library: ValueError
  when \<open>k\<close> is negative or larger than the population, TypeError when \<open>k\<close> is
  \<^verbatim>\<open>None\<close>, and otherwise \<open>k\<close> elements drawn without replacement. Which elements
  are drawn is the generator's business: the drawing function \<open>draw\<close> and the
  generator state \<open>g\<close> (the module's hidden state, set by \<^verbatim>\<open>random.seed\<close>) are
  parameters.
\<close>

type_synonym 'g drawer = "'g \<Rightarrow> nat list \<Rightarrow> nat \<Rightarrow> nat list \<times> 'g"

definition random_sample ::
  "'g drawer \<Rightarrow> 'g \<Rightarrow> nat list \<Rightarrow> int option \<Rightarrow> py_error + (nat list \<times> 'g)" where
  "random_sample draw g population k =
     (case k of
        None \<Rightarrow> Inl TypeError
      | Some k \<Rightarrow>
          if \<not> (0 \<le> k \<and> k \<le> int (length population)) then Inl ValueError
          else Inr (draw g population (nat k)))"

text \<open>
  What the library promises of a draw of \<open>k \<le> |population|\<close> elements: \<open>k\<close> elements, taken
  from distinct positions of the population.
\<close>

definition draws_without_replacement :: "'g drawer \<Rightarrow> bool" where
  "draws_without_replacement draw \<longleftrightarrow>
     (\<forall>g population k. k \<le> length population \<longrightarrow>
        length (fst (draw g population k)) = k \<and>
        mset (fst (draw g population k)) \<subseteq># mset population)"

text \<open>\<^verbatim>\<open>range(n)\<close>, empty for a negative \<open>n\<close>.\<close>

definition py_range :: "int \<Rightarrow> nat list" where
  "py_range n = [0..<nat n]"

text \<open>The method does not read the object; \<open>self\<close> is kept as the source has it.\<close>

definition frame_selector ::
  "'g drawer \<Rightarrow> kcc \<Rightarrow> 'g \<Rightarrow> int option \<Rightarrow> int \<Rightarrow> py_error + (nat list \<times> 'g)" where
  "frame_selector draw self g frames_needed frames =
     bind_err (random_sample draw g (py_range frames) frames_needed) (\<lambda>drawn.
     let list_frames = sort (fst drawn) in
     Inr (list_frames, snd drawn))"

subsection \<open>The constructor\<close>

record kcc_args =
  arg_biorbd_model :: biorbd
  arg_markers_model :: "string list"
  arg_markers :: array3
  arg_closed_loop_markers :: "string list"
  arg_tracked_markers :: "string list"
  arg_parameter_dofs :: "string list"
  arg_kinematic_dofs :: "string list"
  arg_weights_param :: vec
  arg_weights_ik :: vec
  arg_q_ik_initial_guess :: array2
  arg_nb_frames_ik_step :: "int option"
  arg_nb_frames_param_step :: "int option"
  arg_randomize_param_step_frames :: bool
  arg_use_analytical_jacobians :: bool
  arg_segment_id_with_vertical_z :: "int option"
  arg_param_solver :: string
  arg_ik_solver :: string

text \<open>
  The loop that checks the marker names. The attribute \<^verbatim>\<open>self.markers_model\<close> is
  assigned in the \<^verbatim>\<open>else\<close> branch only, so it stays unset (\<open>None\<close>) when the list
  is empty.
\<close>

fun check_markers_model ::
  "biorbd \<Rightarrow> string list \<Rightarrow> string list \<Rightarrow> string list option \<Rightarrow> py_error + string list option" where
  "check_markers_model bm all_names [] attr = Inr attr"
| "check_markers_model bm all_names (marker # rest) attr =
     (if marker \<notin> set (markerNames bm) then Inl ValueError
      else check_markers_model bm all_names rest (Some all_names))"

text \<open>A list comprehension whose element expression can raise.\<close>

fun map_err :: "('a \<Rightarrow> py_error + 'b) \<Rightarrow> 'a list \<Rightarrow> py_error + 'b list" where
  "map_err f [] = Inr []"
| "map_err f (x # xs) = bind_err (f x) (\<lambda>y. bind_err (map_err f xs) (\<lambda>ys. Inr (y # ys)))"

text \<open>\<^verbatim>\<open>[w] * n\<close>: empty for \<open>n \<le> 0\<close>.\<close>

definition py_repeat :: "'a \<Rightarrow> int \<Rightarrow> 'a list" where
  "py_repeat w n = replicate (nat n) w"

text \<open>
  The five blocks of a weight list, with the block lengths the constructor hard-codes;
  the weights are read at positions 0, 1, 4, 2, 3.
\<close>

definition build_weight_list :: "vec \<Rightarrow> string list \<Rightarrow> string list \<Rightarrow> nat \<Rightarrow> nat \<Rightarrow> py_error + vec" where
  "build_weight_list weights closed_names tracked_names guess_rows n_param =
     bind_err (py_nth weights 0) (\<lambda>w0.
     let weight_closed_loop = py_repeat w0 (int (length closed_names) * 3 - 1) in
     bind_err (py_nth weights 1) (\<lambda>w1.
     let weight_open_loop = py_repeat w1 (int (length [i \<leftarrow> tracked_names. i \<notin> set closed_names]) * 3) in
     bind_err (py_nth weights 4) (\<lambda>w4.
     let weight_rot_matrix = py_repeat w4 5 in
     bind_err (py_nth weights 2) (\<lambda>w2.
     let weight_theta_13 = [w2] in
     bind_err (py_nth weights 3) (\<lambda>w3.
     let weight_continuity = py_repeat w3 (int guess_rows - int n_param) in
     Inr (weight_closed_loop @ weight_open_loop @ weight_continuity @ weight_theta_13
          @ weight_rot_matrix))))))"

text \<open>
  \<^verbatim>\<open>__init__\<close>. A failed shape test raises while it formats its message
  (\<^verbatim>\<open>markers.shape()\<close> calls a tuple), hence TypeError. The attributes
  \<^verbatim>\<open>list_sol\<close>, \<^verbatim>\<open>q\<close> and \<^verbatim>\<open>output\<close>, which no modelled method reads, are left
  out. The weight lists are built last, after the frames have been drawn; the source
  interleaves the reads of the two weight vectors, which all raise the same IndexError.
\<close>

definition init_kcc :: "'g drawer \<Rightarrow> 'g \<Rightarrow> kcc_args \<Rightarrow> py_error + (kcc \<times> 'g)" where
  "init_kcc draw g a =
     (let bm = arg_biorbd_model a;
          m = arg_markers a in
      bind_err (check_markers_model bm (arg_markers_model a) (arg_markers_model a) None)
        (\<lambda>attr_markers_model.
      if \<not> (dim0 m = 3 \<and> dim1 m = length (arg_markers_model a)
             \<and> Some (int (dim2 m)) = arg_nb_frames_ik_step a) then Inl TypeError
      else
      bind_err (case attr_markers_model of None \<Rightarrow> Inl AttributeError | Some mm \<Rightarrow> Inr mm)
        (\<lambda>mm.
      bind_err (map_err (py_index mm) [i \<leftarrow> mm. str_contains ''Table'' i]) (\<lambda>table_idx.
      bind_err (map_err (py_index (arg_tracked_markers a)) (arg_tracked_markers a))
        (\<lambda>model_idx.
      bind_err (map_err (py_index (nameDof bm)) (arg_parameter_dofs a)) (\<lambda>q_param_idx.
      bind_err (map_err (py_index (nameDof bm)) (arg_kinematic_dofs a)) (\<lambda>q_kin_idx.
      let self0 =
        \<lparr>biorbd_model = bm,
         model_dofs = nameDof bm,
         nb_markers = nbMarkers bm,
         nb_frames = dim2 m,
         markers_model = mm,
         markers = m,
         closed_loop_markers = arg_closed_loop_markers a,
         tracked_markers = arg_tracked_markers a,
         parameter_dofs = arg_parameter_dofs a,
         kinematic_dofs = arg_kinematic_dofs a,
         table_markers_idx = table_idx,
         model_markers_idx = model_idx,
         nb_markers_table = length table_idx,
         nb_markers_model = length model_idx,
         q_parameter_index = q_param_idx,
         q_kinematic_index = q_kin_idx,
         nb_parameters_dofs = length (arg_parameter_dofs a),
         nb_kinematic_dofs = length (arg_kinematic_dofs a),
         param_solver = arg_param_solver a,
         ik_solver = arg_ik_solver a,
         q_ik_initial_guess = arg_q_ik_initial_guess a,
         nb_frames_ik_step = dim2 m,
         nb_frames_param_step = arg_nb_frames_param_step a,
         randomize_param_step_frames = arg_randomize_param_step_frames a,
         use_analytical_jacobians = arg_use_analytical_jacobians a,
         list_frames_param_step = [],
         weights_param = arg_weights_param a,
         weights_ik = arg_weights_ik a,
         weight_list_param = [],
         weight_list_ik = [],
         segment_id_with_vertical_z = arg_segment_id_with_vertical_z a\<rparr> in
      bind_err (frame_selector draw self0 g (nb_frames_param_step self0)
                  (int (nb_frames_ik_step self0))) (\<lambda>sel.
      bind_err (build_weight_list (arg_weights_param a) (arg_closed_loop_markers a)
                  (arg_tracked_markers a) (nrows (arg_q_ik_initial_guess a))
                  (length (arg_parameter_dofs a))) (\<lambda>wl_param.
      bind_err (build_weight_list (arg_weights_ik a) (arg_closed_loop_markers a)
                  (arg_tracked_markers a) (nrows (arg_q_ik_initial_guess a))
                  (length (arg_parameter_dofs a))) (\<lambda>wl_ik.
      Inr (self0\<lparr>list_frames_param_step := fst sel,
                 weight_list_param := wl_param,
                 weight_list_ik := wl_ik\<rparr>, snd sel)))))))))))"

section \<open>Penalties\<close>

text \<open>
  Every penalty returns the pair (model values, target values); the residual handed on is
  their element-wise difference, \<^verbatim>\<open>diff_tab_model - diff_tab_xp\<close>.
\<close>

definition residual :: "real list \<times> real list \<Rightarrow> real list" where
  "residual mx = map2 (\<lambda>m x. m - x) (fst mx) (snd mx)"

subsection \<open>Closed-loop (table) markers\<close>

definition penalty_table_markers :: "kcc \<Rightarrow> vec \<Rightarrow> array2 \<Rightarrow> py_error + (vec \<times> vec)" where
  "penalty_table_markers self vect_pos_markers table_markers =
     bind_err (py_nth (table_markers_idx self) 0) (\<lambda>i0.
     let table5_xyz = py_slice vect_pos_markers (i0 * 3) (i0 * 3 + 3) in
     bind_err (col table_markers 0) (\<lambda>table_xp0.
     bind_err (py_nth (table_markers_idx self) 1) (\<lambda>i1.
     let table6_xy = take 2 (py_slice vect_pos_markers (i1 * 3) (i1 * 3 + 3)) in
     bind_err (col_upto table_markers 2 1) (\<lambda>table_xp1.
     Inr (table5_xyz @ table6_xy, table_xp0 @ table_xp1)))))"

subsection \<open>Open-loop markers\<close>

text \<open>
  The loop over \<^verbatim>\<open>enumerate(self.markers_model)\<close>; the second comparison of the
  \<^verbatim>\<open>and\<close> is evaluated only when the first holds.
\<close>

fun open_loop_loop ::
  "kcc \<Rightarrow> vec \<Rightarrow> array2 \<Rightarrow> string list \<Rightarrow> vec \<times> vec \<Rightarrow> py_error + (vec \<times> vec)" where
  "open_loop_loop self model_markers_values open_loop_markers [] acc = Inr acc"
| "open_loop_loop self model_markers_values open_loop_markers (name # names) acc =
     bind_err (py_nth (table_markers_idx self) 0) (\<lambda>i0.
     bind_err (py_nth (markers_model self) i0) (\<lambda>name0.
     if name \<noteq> name0 then
       bind_err (py_nth (table_markers_idx self) 1) (\<lambda>i1.
       bind_err (py_nth (markers_model self) i1) (\<lambda>name1.
       if name \<noteq> name1 then
         bind_err (py_index (markers_model self) name) (\<lambda>k.
         let mark = py_slice model_markers_values (k * 3) (k * 3 + 3) in
         bind_err (col open_loop_markers k) (\<lambda>open_loop.
         open_loop_loop self model_markers_values open_loop_markers names
           (fst acc @ mark, snd acc @ open_loop)))
       else open_loop_loop self model_markers_values open_loop_markers names acc))
     else open_loop_loop self model_markers_values open_loop_markers names acc))"

definition penalty_open_loop_markers ::
  "kcc \<Rightarrow> vec \<Rightarrow> array2 \<Rightarrow> py_error + (vec \<times> vec)" where
  "penalty_open_loop_markers self model_markers_values open_loop_markers =
     open_loop_loop self model_markers_values open_loop_markers (markers_model self) ([], [])"

subsection \<open>Rotation matrix of the last segment\<close>

definition penalty_rotation_matrix :: "kcc \<Rightarrow> vec \<Rightarrow> vec \<times> vec" where
  "penalty_rotation_matrix self x_with_p =
     (let rotation_matrix =
            globalJCS_rot (biorbd_model self) x_with_p (int (nbSegment (biorbd_model self)) - 1);
          rot_matrix_list_model =
            [rotation_matrix 2 0, rotation_matrix 2 1, rotation_matrix 0 2,
             rotation_matrix 1 2, rotation_matrix 2 2 - 1]
      in (rot_matrix_list_model, replicate (length rot_matrix_list_model) 0))"

subsection \<open>Continuity with the previous pose\<close>

fun q_open_loop_loop :: "vec \<Rightarrow> vec \<Rightarrow> nat \<Rightarrow> vec \<times> vec \<Rightarrow> py_error + (vec \<times> vec)" where
  "q_open_loop_loop [] q_init i acc = Inr acc"
| "q_open_loop_loop (val # rest) q_init i acc =
     bind_err (py_nth q_init i) (\<lambda>qi.
     q_open_loop_loop rest q_init (Suc i) (fst acc @ [val], snd acc @ [qi]))"

definition penalty_q_open_loop :: "vec \<Rightarrow> vec \<Rightarrow> py_error + (vec \<times> vec)" where
  "penalty_q_open_loop x q_init = q_open_loop_loop x q_init 0 ([], [])"

subsection \<open>Pivot-angle penalty\<close>

definition theta_part1_3_lim :: real where
  "theta_part1_3_lim = 7 * pi / 10"

text \<open>
  \<^verbatim>\<open>q[-2]\<close> and \<^verbatim>\<open>q[-1]\<close> raise IndexError on an array of fewer than two
  elements.
\<close>

definition theta_pivot_penalty :: "real list \<Rightarrow> py_error + (real list \<times> real list)" where
  "theta_pivot_penalty q =
     (if length q < 2 then Inl IndexError
      else
        let theta_part1_3 = q ! (length q - 2) + q ! (length q - 1) in
        if theta_part1_3 > theta_part1_3_lim
        then Inr ([theta_part1_3], [theta_part1_3_lim])
        else Inr ([0], [0]))"

section \<open>Objectives\<close>

text \<open>
  \<^verbatim>\<open>vect_pos_markers\<close>: the marker positions of the model at a pose, three
  consecutive entries per marker.
\<close>

definition vect_pos_markers_of :: "biorbd \<Rightarrow> vec \<Rightarrow> vec" where
  "vect_pos_markers_of bm q = concat (map to_array (markers_at bm q))"

text \<open>
  The full pose from the kinematic coordinates \<open>x\<close> and the parameters \<open>p\<close>; with
  \<^verbatim>\<open>p is None\<close> the argument is the full pose already.
\<close>

definition new_x_of :: "kcc \<Rightarrow> vec \<Rightarrow> vec option \<Rightarrow> py_error + vec" where
  "new_x_of self x p =
     (case p of
        Some pv \<Rightarrow>
          bind_err (np_put (replicate (nbQ (biorbd_model self)) 0) (q_kinematic_index self) x)
            (\<lambda>new_x. np_put new_x (q_parameter_index self) pv)
      | None \<Rightarrow> Inr x)"

text \<open>
  The unweighted blocks of \<^verbatim>\<open>objective_ik_list\<close>, in the order in which the code
  concatenates them: table, open-loop markers, continuity, pivot, rotation. Each block is
  its pair (model values, target values).
\<close>

definition ik_blocks ::
  "kcc \<Rightarrow> vec \<Rightarrow> vec option \<Rightarrow> array2 \<Rightarrow> array2 \<Rightarrow> vec \<Rightarrow> py_error + (vec \<times> vec) list" where
  "ik_blocks self x p table_markers thorax_markers q_init =
     bind_err (new_x_of self x p) (\<lambda>new_x.
     let vect_pos_markers = vect_pos_markers_of (biorbd_model self) new_x in
     bind_err (penalty_table_markers self vect_pos_markers table_markers) (\<lambda>table.
     bind_err (penalty_open_loop_markers self vect_pos_markers thorax_markers) (\<lambda>thorax.
     let rot_matrix = penalty_rotation_matrix self new_x in
     bind_err (penalty_q_open_loop x q_init) (\<lambda>q_continuity.
     bind_err (theta_pivot_penalty new_x) (\<lambda>pivot.
     Inr [table, thorax, q_continuity, pivot, rot_matrix])))))"

definition objective_ik_list ::
  "kcc \<Rightarrow> vec \<Rightarrow> vec option \<Rightarrow> array2 \<Rightarrow> array2 \<Rightarrow> vec \<Rightarrow> py_error + vec option" where
  "objective_ik_list self x p table_markers thorax_markers q_init =
     bind_err (ik_blocks self x p table_markers thorax_markers q_init) (\<lambda>blocks.
     let diff_model = concat (map fst blocks);
         diff_xp = concat (map snd blocks) in
     bind_err (np_binop (\<lambda>m t. m - t) diff_model diff_xp) (\<lambda>diff.
     if ik_solver self = ''leastsquare''
       then bind_err (np_binop (\<lambda>d w. d * w) diff (weight_list_param self)) (\<lambda>r. Inr (Some r))
     else if ik_solver self = ''ipopt''
       then bind_err (np_binop (\<lambda>d w. d * w) diff (weight_list_ik self)) (\<lambda>r. Inr (Some r))
     else Inr None))"

definition objective_ik_scalar ::
  "kcc \<Rightarrow> vec \<Rightarrow> vec option \<Rightarrow> array2 \<Rightarrow> array2 \<Rightarrow> vec \<Rightarrow> py_error + real" where
  "objective_ik_scalar self x p table_markers thorax_markers q_init =
     bind_err (objective_ik_list self x p table_markers thorax_markers q_init) (\<lambda>r.
     case r of
       None \<Rightarrow> Inl TypeError
     | Some residuals \<Rightarrow> Inr (0.5 * (\<Sum>v \<leftarrow> residuals. v ^ 2)))"

subsection \<open>Parameter-identification objective\<close>

text \<open>
  \<^verbatim>\<open>[i for i, value in enumerate(self.markers_model) if "Table" in value]\<close> and its
  complement.
\<close>

definition index_table_markers_of :: "string list \<Rightarrow> nat list" where
  "index_table_markers_of names = [i \<leftarrow> [0..<length names]. str_contains ''Table'' (names ! i)]"

definition index_wu_markers_of :: "string list \<Rightarrow> nat list" where
  "index_wu_markers_of names = [i \<leftarrow> [0..<length names]. \<not> str_contains ''Table'' (names ! i)]"

text \<open>
  The function works on one buffer \<^verbatim>\<open>Q\<close>, overwritten in place at every sampled
  frame. The name \<^verbatim>\<open>x0\<close> is bound to the caller's array on entry and rebound by
  \<^verbatim>\<open>x0 = Q\<close> at the end of each frame: from then on it names the buffer itself,
  not a copy. The state keeps the buffer, the array \<open>x0\<close> names, and the local variables
  of the loop; \<^verbatim>\<open>q_continuity\<close> and \<^verbatim>\<open>pivot\<close> are unbound until a frame has
  assigned them.
\<close>

datatype x0_ref = Caller_x0 | Buffer_Q

record param_state =
  Q_buf :: vec
  x0_name :: x0_ref
  table5_xyz_all_frames :: real
  table6_xy_all_frames :: real
  mark_out_all_frames :: real
  rotation_matrix_all_frames :: real
  q_continuity :: "real option"
  pivot :: "real option"

text \<open>The inner loop \<^verbatim>\<open>for j in range(len(thorax_markers[0, :]))\<close>.\<close>

fun mark_out_loop :: "vec \<Rightarrow> vec \<Rightarrow> nat list \<Rightarrow> real \<Rightarrow> py_error + real" where
  "mark_out_loop thorax_list_model thorax_list_xp [] mark_out = Inr mark_out"
| "mark_out_loop thorax_list_model thorax_list_xp (j # js) mark_out =
     bind_err (np_binop (\<lambda>m t. m - t) (py_slice thorax_list_model j (j + 3))
                                        (py_slice thorax_list_xp j (j + 3))) (\<lambda>d.
     let mark = (linalg_norm d) ^ 2 in
     mark_out_loop thorax_list_model thorax_list_xp js (mark_out + mark))"

definition param_frame ::
  "kcc \<Rightarrow> array2 \<Rightarrow> vec \<Rightarrow> array3 \<Rightarrow> nat \<Rightarrow> param_state \<Rightarrow> py_error + param_state" where
  "param_frame self x x0_caller markers_calibration f st =
     (let index_wu_markers = index_wu_markers_of (markers_model self) in
      bind_err (py_nth index_wu_markers 0) (\<lambda>wu_first.
      bind_err (py_last index_wu_markers) (\<lambda>wu_last.
      bind_err (frame_slice markers_calibration wu_first (wu_last + 1) f) (\<lambda>thorax_markers.
      bind_err (frame_slice markers_calibration (wu_last + 1) (dim1 markers_calibration) f)
        (\<lambda>table_markers.
      bind_err (col_take x (q_kinematic_index self) f) (\<lambda>xf.
      bind_err (np_put (Q_buf st) (q_kinematic_index self) xf) (\<lambda>Q.
      let vect_pos_markers = vect_pos_markers_of (biorbd_model self) Q in
      bind_err (penalty_table_markers self vect_pos_markers table_markers) (\<lambda>table.
      bind_err (np_binop (\<lambda>m t. m - t) (take 3 (fst table)) (take 3 (snd table))) (\<lambda>d5.
      let table5_xyz = (linalg_norm d5) ^ 2 in
      bind_err (np_binop (\<lambda>m t. m - t) (drop 3 (fst table)) (drop 3 (snd table))) (\<lambda>d6.
      let table6_xy = (linalg_norm d6) ^ 2 in
      bind_err (penalty_open_loop_markers self vect_pos_markers thorax_markers) (\<lambda>thorax.
      bind_err (if nrows thorax_markers = 0 then Inl IndexError
                else Inr (ncols thorax_markers)) (\<lambda>n.
      bind_err (mark_out_loop (fst thorax) (snd thorax) [0..<n] 0) (\<lambda>mark_out.
      let rot_matrix_list_model = fst (penalty_rotation_matrix self Q);
          rotation_matrix = (\<Sum>i \<leftarrow> rot_matrix_list_model. i ^ 2);
          x0 = (case x0_name st of Caller_x0 \<Rightarrow> x0_caller | Buffer_Q \<Rightarrow> Q) in
      bind_err (penalty_q_open_loop Q x0) (\<lambda>q_cont.
      bind_err (np_binop (\<lambda>m t. m - t) (fst q_cont) (snd q_cont)) (\<lambda>qd.
      let q_continuity_f = (\<Sum>d \<leftarrow> qd. d ^ 2) in
      bind_err (theta_pivot_penalty Q) (\<lambda>pivot_diff.
      bind_err (py_nth (fst pivot_diff) 0) (\<lambda>pm.
      bind_err (py_nth (snd pivot_diff) 0) (\<lambda>px.
      let pivot_f = (pm - px) ^ 2 in
      Inr (st\<lparr>Q_buf := Q,
              x0_name := Buffer_Q,
              table5_xyz_all_frames := table5_xyz_all_frames st + table5_xyz,
              table6_xy_all_frames := table6_xy_all_frames st + table6_xy,
              mark_out_all_frames := mark_out_all_frames st + mark_out,
              rotation_matrix_all_frames := rotation_matrix_all_frames st + rotation_matrix,
              q_continuity := Some q_continuity_f,
              pivot := Some pivot_f\<rparr>)))))))))))))))))))"

text \<open>The loop \<^verbatim>\<open>for f, frame in enumerate(self.list_frames_param_step)\<close>.\<close>

fun param_frames ::
  "kcc \<Rightarrow> array2 \<Rightarrow> vec \<Rightarrow> array3 \<Rightarrow> nat list \<Rightarrow> param_state \<Rightarrow> py_error + param_state" where
  "param_frames self x x0_caller markers_calibration [] st = Inr st"
| "param_frames self x x0_caller markers_calibration (f # fs) st =
     bind_err (param_frame self x x0_caller markers_calibration f st)
       (param_frames self x x0_caller markers_calibration fs)"

definition objective_function_param ::
  "kcc \<Rightarrow> vec \<Rightarrow> array2 \<Rightarrow> vec \<Rightarrow> array3 \<Rightarrow> vec \<Rightarrow> py_error + real" where
  "objective_function_param self p0 x x0 markers_calibration weight =
     bind_err (np_put (replicate (nrows x) 0) (q_parameter_index self) p0) (\<lambda>Q.
     bind_err (param_frames self x x0 markers_calibration
                 [0..<length (list_frames_param_step self)]
                 \<lparr>Q_buf = Q, x0_name = Caller_x0,
                  table5_xyz_all_frames = 0, table6_xy_all_frames = 0,
                  mark_out_all_frames = 0, rotation_matrix_all_frames = 0,
                  q_continuity = None, pivot = None\<rparr>) (\<lambda>st.
     bind_err (py_nth weight 0) (\<lambda>w0.
     bind_err (py_nth weight 1) (\<lambda>w1.
     bind_err (py_nth weight 2) (\<lambda>w2.
     case pivot st of None \<Rightarrow> Inl UnboundLocalError | Some pivot_last \<Rightarrow>
     bind_err (py_nth weight 3) (\<lambda>w3.
     case q_continuity st of None \<Rightarrow> Inl UnboundLocalError | Some q_continuity_last \<Rightarrow>
     bind_err (py_nth weight 4) (\<lambda>w4.
     Inr (w0 * (table5_xyz_all_frames st + table6_xy_all_frames st)
          + w1 * mark_out_all_frames st
          + w2 * pivot_last
          + w3 * q_continuity_last
          + w4 * rotation_matrix_all_frames st))))))))"

section \<open>Jacobians\<close>

text \<open>
  The module \<^verbatim>\<open>jacobians\<close> of the repository is not among the sources at hand; the
  five functions of it that the inverse-kinematics step calls are parameters. Each returns
  a two-dimensional array, one row per residual of its block.
\<close>

record jacobians =
  marker_jacobian_table :: "vec \<Rightarrow> biorbd \<Rightarrow> nat list \<Rightarrow> nat list \<Rightarrow> array2"
  marker_jacobian_model :: "vec \<Rightarrow> biorbd \<Rightarrow> nat list \<Rightarrow> nat list \<Rightarrow> array2"
  rotation_matrix_jacobian :: "vec \<Rightarrow> biorbd \<Rightarrow> int option \<Rightarrow> nat list \<Rightarrow> array2"
  jacobian_q_continuity :: "vec \<Rightarrow> nat list \<Rightarrow> array2"
  marker_jacobian_theta :: "vec \<Rightarrow> nat list \<Rightarrow> array2"

definition ik_jacobian :: "jacobians \<Rightarrow> kcc \<Rightarrow> vec \<Rightarrow> biorbd \<Rightarrow> vec \<Rightarrow> py_error + array2" where
  "ik_jacobian jm self x bm weights =
     (let table = marker_jacobian_table jm x bm (table_markers_idx self) (q_parameter_index self);
          model = marker_jacobian_model jm x bm (model_markers_idx self) (q_parameter_index self);
          rotation = rotation_matrix_jacobian jm x bm (segment_id_with_vertical_z self)
                       (q_parameter_index self);
          continuity = jacobian_q_continuity jm x (q_parameter_index self);
          pivot_jac = marker_jacobian_theta jm x (q_parameter_index self) in
      bind_err (py_nth weights 0) (\<lambda>w0.
      bind_err (py_nth weights 1) (\<lambda>w1.
      bind_err (py_nth weights 3) (\<lambda>w3.
      bind_err (py_nth weights 2) (\<lambda>w2.
      bind_err (py_nth weights 4) (\<lambda>w4.
      np_concatenate
        [scale_array table w0,
         scale_array model w1,
         scale_array continuity w3,
         scale_array pivot_jac w2,
         scale_array rotation w4]))))))"

text \<open>
  \<^verbatim>\<open>ik_gradient\<close>: the double loop computes products and drops them, so all that is
  left of it is the exceptions its first pass can raise; the result is the column sums.
\<close>

definition ik_gradient ::
  "jacobians \<Rightarrow> kcc \<Rightarrow> vec \<Rightarrow> vec option \<Rightarrow> array2 \<Rightarrow> array2 \<Rightarrow> vec \<Rightarrow> biorbd \<Rightarrow> vec
     \<Rightarrow> py_error + vec" where
  "ik_gradient jm self x p table_markers thorax_markers q_init bm weights =
     bind_err (ik_jacobian jm self x bm weights) (\<lambda>jac.
     bind_err (if 0 < ncols jac \<and> 0 < nrows jac
               then bind_err (objective_ik_list self x p table_markers thorax_markers q_init)
                      (\<lambda>r. case r of
                              None \<Rightarrow> Inl TypeError
                            | Some v \<Rightarrow> if nrows jac \<le> length v then Inr () else Inl IndexError)
               else Inr ()) (\<lambda>u.
     Inr (map (\<lambda>k. \<Sum>i \<leftarrow> [0..<nrows jac]. cell jac i k) [0..<ncols jac])))"

section \<open>The inverse-kinematics step\<close>

text \<open>
  The two optimisers are external. A call is modelled by the result it returns: the
  least-squares routine returns a point and the Jacobian there, the constrained routine a
  point and its success flag. What they are given is what the code gives them: the
  objective, the start point, the bounds, and the Jacobian option or the constraints.
\<close>

datatype jac_arg = Analytical "vec \<Rightarrow> py_error + array2" | Three_point

datatype jac_value = Jac_array array2 | Jac_list vec

record ls_result =
  ls_x :: vec
  ls_jac :: array2

record ipopt_result =
  ip_x :: vec
  ip_success :: bool

record constraint =
  con_fun :: "vec \<Rightarrow> py_error + real"
  con_jac :: "vec \<Rightarrow> py_error + vec"

record solvers =
  least_squares :: "(vec \<Rightarrow> py_error + vec option) \<Rightarrow> vec \<Rightarrow> vec \<times> vec \<Rightarrow> jac_arg \<Rightarrow> ls_result"
  minimize_ipopt :: "(vec \<Rightarrow> py_error + real) \<Rightarrow> vec \<Rightarrow> constraint list \<Rightarrow> vec list \<Rightarrow> ipopt_result"
  minimize_trust_constr :: "(vec \<Rightarrow> py_error + real) \<Rightarrow> vec \<Rightarrow> (real \<times> real) list \<Rightarrow> vec"
  minimize_ipopt_param :: "(vec \<Rightarrow> py_error + real) \<Rightarrow> vec \<Rightarrow> vec list \<Rightarrow> vec"

text \<open>
  \<^verbatim>\<open>build_constraint\<close>: five equality constraints, the \<open>i\<close>-th being the \<open>i\<close>-th
  entry of \<^verbatim>\<open>objective_ik_list\<close> with the \<open>i\<close>-th row of the table Jacobian.
\<close>

definition build_constraint ::
  "jacobians \<Rightarrow> kcc \<Rightarrow> nat \<Rightarrow> vec \<Rightarrow> vec option \<Rightarrow> constraint list" where
  "build_constraint jm self f q_init p =
     map (\<lambda>i.
       \<lparr>con_fun = (\<lambda>x.
          bind_err (frame_take (markers self) (table_markers_idx self) f) (\<lambda>tm.
          bind_err (frame_take (markers self) (model_markers_idx self) f) (\<lambda>wm.
          bind_err (objective_ik_list self x p tm wm q_init) (\<lambda>r.
          case r of None \<Rightarrow> Inl TypeError | Some v \<Rightarrow> py_nth v i)))),
        con_jac = (\<lambda>x.
          bind_err (row (marker_jacobian_table jm x (biorbd_model self) (table_markers_idx self)
                           (q_parameter_index self)) i) (\<lambda>r.
          bind_err (py_nth (weights_ik self) 0) (\<lambda>w. Inr (map (\<lambda>c. c * w) r))))\<rparr>)
       [0, 1, 2, 3, 4]"

text \<open>
  The state of the frame loop of \<^verbatim>\<open>step_2\<close>: the pose matrix being filled, and the
  locals \<^verbatim>\<open>espilon_markers\<close> and \<^verbatim>\<open>jacobian\<close>, unbound until a frame has run.
\<close>

record step_2_state =
  st_q_output :: array2
  st_espilon_markers :: "real option"
  st_jacobian :: "jac_value option"

text \<open>The loop \<^verbatim>\<open>for j in range(index_table_markers[0])\<close> that sums the squared errors.\<close>

fun espilon_loop ::
  "(real \<times> real \<times> real) list \<Rightarrow> array2 \<Rightarrow> nat list \<Rightarrow> real \<Rightarrow> py_error + real" where
  "espilon_loop model_points markers_to_compare [] espilon = Inr espilon"
| "espilon_loop model_points markers_to_compare (j # js) espilon =
     bind_err (py_nth model_points j) (\<lambda>mj.
     bind_err (col markers_to_compare j) (\<lambda>cj.
     bind_err (np_binop (\<lambda>m t. m - t) (to_array mj) cj) (\<lambda>d.
     let mark = (linalg_norm d) ^ 2 in
     espilon_loop model_points markers_to_compare js (espilon + mark))))"

text \<open>
  The start point of frame \<open>f\<close>: the initial guess at frame 0, the previous frame's
  solution afterwards.
\<close>

definition x0_of :: "kcc \<Rightarrow> nat \<Rightarrow> array2 \<Rightarrow> py_error + vec" where
  "x0_of self f q_output =
     (if f = 0 then col_take (q_ik_initial_guess self) (q_kinematic_index self) 0
      else col_take q_output (q_kinematic_index self) (f - 1))"

text \<open>The call of the least-squares routine at frame \<open>f\<close>, given the marker slices.\<close>

definition ls_call ::
  "solvers \<Rightarrow> jacobians \<Rightarrow> kcc \<Rightarrow> vec option \<Rightarrow> vec \<times> vec \<Rightarrow> array2 \<Rightarrow> array2 \<Rightarrow> vec \<Rightarrow> ls_result" where
  "ls_call so jm self p bounds_without_p tm wm x0 =
     (let jac = (if use_analytical_jacobians self
                 then Analytical (\<lambda>x. ik_jacobian jm self x (biorbd_model self)
                                          (weights_param self))
                 else Three_point)
      in least_squares so (\<lambda>x. objective_ik_list self x p tm wm x0) x0 bounds_without_p jac)"

text \<open>
  The closures \<^verbatim>\<open>obj_fun\<close> and \<^verbatim>\<open>jac_scalar\<close> of the \<^verbatim>\<open>ipopt\<close> branch, which
  slice the markers when they are called, and the call of the constrained routine.
\<close>

definition obj_fun :: "kcc \<Rightarrow> vec option \<Rightarrow> nat \<Rightarrow> vec \<Rightarrow> vec \<Rightarrow> py_error + real" where
  "obj_fun self p f x0 x =
     bind_err (frame_take (markers self) (index_table_markers_of (markers_model self)) f) (\<lambda>tm.
     bind_err (frame_take (markers self) (index_wu_markers_of (markers_model self)) f) (\<lambda>wm.
     objective_ik_scalar self x p tm wm x0))"

definition jac_scalar ::
  "jacobians \<Rightarrow> kcc \<Rightarrow> vec option \<Rightarrow> nat \<Rightarrow> vec \<Rightarrow> vec \<Rightarrow> py_error + vec" where
  "jac_scalar jm self p f x0 x =
     bind_err (frame_take (markers self) (index_table_markers_of (markers_model self)) f) (\<lambda>tm.
     bind_err (frame_take (markers self) (index_wu_markers_of (markers_model self)) f) (\<lambda>wm.
     ik_gradient jm self x p tm wm x0 (biorbd_model self) (weights_ik self)))"

definition ipopt_call ::
  "solvers \<Rightarrow> jacobians \<Rightarrow> kcc \<Rightarrow> vec option \<Rightarrow> vec \<times> vec \<Rightarrow> nat \<Rightarrow> vec \<Rightarrow> ipopt_result" where
  "ipopt_call so jm self p bounds_without_p f x0 =
     minimize_ipopt so (obj_fun self p f x0) x0 (build_constraint jm self f x0 p)
       [fst bounds_without_p, snd bounds_without_p]"

text \<open>
  The end of a pass: the residual of the frame. \<^verbatim>\<open>espilon_markers = 0\<close> stands inside
  the frame loop, so each frame starts its sum afresh.
\<close>

definition frame_espilon :: "kcc \<Rightarrow> nat \<Rightarrow> array2 \<Rightarrow> py_error + real" where
  "frame_espilon self f q_output =
     bind_err (col q_output f) (\<lambda>qf.
     let model_points = markers_at (biorbd_model self) qf in
     bind_err (frame_all (markers self) f) (\<lambda>markers_to_compare.
     bind_err (py_nth (index_table_markers_of (markers_model self)) 0) (\<lambda>first_table.
     espilon_loop model_points markers_to_compare [0..<first_table] 0)))"

text \<open>One pass of the frame loop.\<close>

definition step_2_frame ::
  "solvers \<Rightarrow> jacobians \<Rightarrow> kcc \<Rightarrow> vec option \<Rightarrow> vec \<times> vec \<Rightarrow> nat \<Rightarrow> step_2_state
     \<Rightarrow> py_error + step_2_state" where
  "step_2_frame so jm self p bounds_without_p f st =
     (let q_output = st_q_output st in
      bind_err (x0_of self f q_output) (\<lambda>x0.
      bind_err
        (if ik_solver self = ''leastsquare'' then
           bind_err (frame_take (markers self) (index_table_markers_of (markers_model self)) f)
             (\<lambda>tm.
           bind_err (frame_take (markers self) (index_wu_markers_of (markers_model self)) f)
             (\<lambda>wm.
           let IK_i = ls_call so jm self p bounds_without_p tm wm x0 in
           bind_err (col_put q_output (q_kinematic_index self) f (ls_x IK_i)) (\<lambda>q_output'.
           Inr (q_output', Jac_array (ls_jac IK_i)))))
         else if ik_solver self = ''ipopt'' then
           let ipopt_i = ipopt_call so jm self p bounds_without_p f x0 in
           bind_err (col_put q_output (q_kinematic_index self) f (ip_x ipopt_i)) (\<lambda>q_output'.
           bind_err (jac_scalar jm self p f x0 (ip_x ipopt_i)) (\<lambda>jacobian.
           if ip_success ipopt_i = False then Inl RuntimeError
           else Inr (q_output', Jac_list jacobian)))
         else Inl ValueError) (\<lambda>solved.
      bind_err (frame_espilon self f (fst solved)) (\<lambda>espilon.
      Inr \<lparr>st_q_output = fst solved,
           st_espilon_markers = Some espilon,
           st_jacobian = Some (snd solved)\<rparr>))))"

fun step_2_frames ::
  "solvers \<Rightarrow> jacobians \<Rightarrow> kcc \<Rightarrow> vec option \<Rightarrow> vec \<times> vec \<Rightarrow> nat list \<Rightarrow> step_2_state
     \<Rightarrow> py_error + step_2_state" where
  "step_2_frames so jm self p bounds_without_p [] st = Inr st"
| "step_2_frames so jm self p bounds_without_p (f # fs) st =
     bind_err (step_2_frame so jm self p bounds_without_p f st)
       (step_2_frames so jm self p bounds_without_p fs)"

text \<open>
  \<^verbatim>\<open>step_2\<close>. The elapsed time it also returns is wall-clock time and is left out;
  what stays of the timing code is that \<^verbatim>\<open>end - start\<close> after the loop raises when no
  frame has bound \<^verbatim>\<open>start\<close>.
\<close>

definition step_2 ::
  "solvers \<Rightarrow> jacobians \<Rightarrow> kcc \<Rightarrow> vec option \<Rightarrow> vec \<times> vec \<Rightarrow> array2
     \<Rightarrow> py_error + (array2 \<times> real \<times> jac_value)" where
  "step_2 so jm self p bounds q_output =
     bind_err (np_take (fst bounds) (q_kinematic_index self)) (\<lambda>bounds_without_p_min.
     bind_err (np_take (snd bounds) (q_kinematic_index self)) (\<lambda>bounds_without_p_max.
     bind_err (step_2_frames so jm self p (bounds_without_p_min, bounds_without_p_max)
                 [0..<nb_frames_ik_step self]
                 \<lparr>st_q_output = q_output, st_espilon_markers = None, st_jacobian = None\<rparr>)
       (\<lambda>st.
     case st_espilon_markers st of
       None \<Rightarrow> Inl UnboundLocalError
     | Some espilon \<Rightarrow>
         (case st_jacobian st of
            None \<Rightarrow> Inl UnboundLocalError
          | Some jacobian \<Rightarrow> Inr (st_q_output st, espilon, jacobian)))))"


section \<open>The calibration loop\<close>

text \<open>
  During \<^verbatim>\<open>solve\<close> three pose matrices are alive. The array \<open>A\<close> is the one
  \<^verbatim>\<open>self.q_ik_initial_guess\<close> names on entry; \<^verbatim>\<open>q0\<close> is a view of its first
  column, so a later write into \<open>A\<close> shows through \<^verbatim>\<open>q0\<close>. The array \<open>B\<close> is the
  second \<^verbatim>\<open>q_output\<close>; the last statement of the loop body makes
  \<^verbatim>\<open>self.q_ik_initial_guess\<close> name \<open>B\<close> too, and from then on a write through either
  name is a write into \<open>B\<close>. The result \<^verbatim>\<open>q_step_2\<close> of the first step is not written
  again. The state of the loop keeps \<open>A\<close>, \<open>B\<close>, which of them the attribute names, and
  the local variables; \<^verbatim>\<open>q_out\<close> is unbound until the body has run once.
\<close>

record solve_state =
  guess_A :: array2
  guess_is_q_output :: bool
  st_B :: array2
  st_p :: vec
  epsilon_markers_n :: real
  epsilon_markers_n_minus_1 :: real
  delta_epsilon_markers :: real
  iteration :: nat
  st_q_out :: "array2 option"
  jacobians_used :: "jac_value list"

text \<open>The content of the view \<^verbatim>\<open>a[:, j]\<close> of an array known to have that column.\<close>

definition view_col :: "array2 \<Rightarrow> nat \<Rightarrow> vec" where
  "view_col a j = map (\<lambda>i. cell a i j) [0..<nrows a]"

text \<open>
  The parameter step of one pass. In the \<^verbatim>\<open>ipopt\<close> branch the code prepares a start
  point and constraints that the call then leaves out (the argument is commented out):
  only the exceptions of that preparation remain. With any other solver name
  \<^verbatim>\<open>param_opt\<close> is unbound when it is printed.
\<close>

definition param_step ::
  "solvers \<Rightarrow> kcc \<Rightarrow> array2 \<Rightarrow> (real \<times> real) list \<Rightarrow> vec list \<Rightarrow> solve_state \<Rightarrow> py_error + vec" where
  "param_step so self q_step_2 bounds bounds_param st =
     bind_err (cols_take q_step_2 (list_frames_param_step self)) (\<lambda>q_first_ik_not_all_frames.
     bind_err (frames_take (markers self) (list_frames_param_step self))
       (\<lambda>markers_xp_data_not_all_frames.
     let q0 = view_col (guess_A st) 0;
         q_output = st_B st;
         p = st_p st in
     if param_solver self = ''leastsquare'' then
       Inr (minimize_trust_constr so
              (\<lambda>p0. objective_function_param self p0 q_first_ik_not_all_frames q0
                       markers_xp_data_not_all_frames (weights_param self))
              p (py_slice bounds 10 16))
     else if param_solver self = ''ipopt'' then
       bind_err (py_nth (list_frames_param_step self) 0) (\<lambda>frame_constraint.
       bind_err (if frame_constraint = 0 then col_take q_step_2 (q_kinematic_index self) 0
                 else col_take q_output (q_kinematic_index self) (frame_constraint - 1)) (\<lambda>x0.
       bind_err (if frame_constraint = 0 then col q_step_2 0
                 else col q_output (frame_constraint - 1)) (\<lambda>q_init.
       Inr (minimize_ipopt_param so
              (\<lambda>p0. objective_function_param self p0 q_first_ik_not_all_frames q0
                       markers_xp_data_not_all_frames (weights_ik self))
              p bounds_param))))
     else Inl UnboundLocalError))"

text \<open>One pass of the \<^verbatim>\<open>while\<close> body: parameter step, broadcast, IK step, new delta.\<close>

definition solve_iteration ::
  "solvers \<Rightarrow> jacobians \<Rightarrow> (biorbd \<Rightarrow> vec \<times> vec) \<Rightarrow> kcc \<Rightarrow> array2 \<Rightarrow> (real \<times> real) list
     \<Rightarrow> vec list \<Rightarrow> solve_state \<Rightarrow> py_error + solve_state" where
  "solve_iteration so jm get_range_q self q_step_2 bounds bounds_param st =
     (let epsilon_markers_n_minus_1' = epsilon_markers_n st in
      bind_err (param_step so self q_step_2 bounds bounds_param st) (\<lambda>param_opt_x.
      bind_err (if guess_is_q_output st
                then bind_err (rows_put (st_B st) (q_parameter_index self)
                                 (repeated_columns param_opt_x (nb_frames_ik_step self)
                                    (length (q_parameter_index self))))
                       (\<lambda>b. Inr (guess_A st, b))
                else bind_err (rows_put (guess_A st) (q_parameter_index self)
                                 (repeated_columns param_opt_x (nb_frames_ik_step self)
                                    (length (q_parameter_index self))))
                       (\<lambda>a. Inr (a, st_B st))) (\<lambda>written.
      let p = param_opt_x in
      bind_err (rows_put (snd written) (q_parameter_index self)
                  (repeated_columns param_opt_x (ncols (snd written))
                     (length (q_parameter_index self)))) (\<lambda>q_output.
      let guess = (if guess_is_q_output st then q_output else fst written) in
      bind_err (step_2 so jm (self\<lparr>q_ik_initial_guess := guess\<rparr>) (Some p)
                  (get_range_q (biorbd_model self)) q_output) (\<lambda>r.
      let q_out = fst r;
          epsilon_markers_n' = fst (snd r);
          jacobian_x = snd (snd r);
          delta_epsilon_markers' = epsilon_markers_n' - epsilon_markers_n_minus_1' in
      Inr \<lparr>guess_A = fst written,
           guess_is_q_output = True,
           st_B = q_out,
           st_p = p,
           epsilon_markers_n = epsilon_markers_n',
           epsilon_markers_n_minus_1 = epsilon_markers_n_minus_1',
           delta_epsilon_markers = delta_epsilon_markers',
           iteration = iteration st + 1,
           st_q_out = Some q_out,
           jacobians_used = jacobians_used st @ [jacobian_x]\<rparr>)))))"

text \<open>
  The loop \<^verbatim>\<open>while abs(delta_epsilon_markers) > threshold\<close>. It need not end: the
  result is \<open>None\<close> when it runs for ever, \<open>Some (Inl e)\<close> when a pass raises, and
  \<open>Some (Inr st)\<close> when the test fails in state \<open>st\<close>.
\<close>

partial_function (option) solve_loop ::
  "solvers \<Rightarrow> jacobians \<Rightarrow> (biorbd \<Rightarrow> vec \<times> vec) \<Rightarrow> kcc \<Rightarrow> real \<Rightarrow> array2
     \<Rightarrow> (real \<times> real) list \<Rightarrow> vec list \<Rightarrow> solve_state \<Rightarrow> (py_error + solve_state) option" where
  "solve_loop so jm get_range_q self threshold q_step_2 bounds bounds_param st =
     (if \<bar>delta_epsilon_markers st\<bar> > threshold then
        (case solve_iteration so jm get_range_q self q_step_2 bounds bounds_param st of
           Inl e \<Rightarrow> Some (Inl e)
         | Inr st' \<Rightarrow> solve_loop so jm get_range_q self threshold q_step_2 bounds bounds_param st')
      else Some (Inr st))"

text \<open>
  The lines of \<^verbatim>\<open>solve\<close> before the loop: dofs whose initial guess sums to zero over
  the frames are set half-way between their bounds, and a first IK step runs with zero
  parameters. \<^verbatim>\<open>get_range_q\<close> (module \<^verbatim>\<open>utils\<close>, not among the sources at hand) is
  a parameter: the lower and the upper bounds of the dofs.
\<close>

definition seed_initial_guess :: "kcc \<Rightarrow> (real \<times> real) list \<Rightarrow> py_error + array2" where
  "seed_initial_guess self bounds =
     (let guess = q_ik_initial_guess self;
          idx_zeros = [i \<leftarrow> [0..<nrows guess]. (\<Sum>j \<leftarrow> [0..<ncols guess]. cell guess i j) = 0];
          kinematic_idx_zeros = [idx \<leftarrow> idx_zeros. idx \<in> set (q_kinematic_index self)];
          bounds_kinematic_idx_zeros =
            map snd [ib \<leftarrow> zip [0..<length bounds] bounds. fst ib \<in> set kinematic_idx_zeros];
          kinova_q0 = map (\<lambda>b. (fst b + snd b) / 2) bounds_kinematic_idx_zeros in
      rows_put guess kinematic_idx_zeros
        \<lparr>nrows = length kinova_q0, ncols = nb_frames_ik_step self,
         cell = (\<lambda>i j. kinova_q0 ! i)\<rparr>)"

record solve_result =
  res_q_out :: array2
  res_p :: vec
  res_jacobians_used :: "jac_value list"

definition solve ::
  "solvers \<Rightarrow> jacobians \<Rightarrow> (biorbd \<Rightarrow> vec \<times> vec) \<Rightarrow> kcc \<Rightarrow> real
     \<Rightarrow> (py_error + solve_result) option" where
  "solve so jm get_range_q self threshold =
     (let bm = biorbd_model self;
          q_output0 = np_zeros2 (nbQ bm) (nb_frames_ik_step self);
          bounds = zip (fst (get_range_q bm)) (snd (get_range_q bm)) in
      case seed_initial_guess self bounds of Inl e \<Rightarrow> Some (Inl e) | Inr guess \<Rightarrow>
      (let p0 = replicate (nb_parameters_dofs self) 0 in
       case step_2 so jm (self\<lparr>q_ik_initial_guess := guess\<rparr>) (Some p0) (get_range_q bm) q_output0
       of Inl e \<Rightarrow> Some (Inl e) | Inr r \<Rightarrow>
      (let q_step_2 = fst r;
           jacobian_ini = snd (snd r) in
       case col guess 0 of Inl e \<Rightarrow> Some (Inl e) | Inr q0 \<Rightarrow>
      (let q_output = np_zeros2 (nbQ bm) (dim2 (markers self)) in
       case bind_err (map_err (\<lambda>k. bind_err (py_nth bounds k) (\<lambda>b. Inr (fst b)))
                         (q_parameter_index self)) (\<lambda>lo.
            bind_err (map_err (\<lambda>l. bind_err (py_nth bounds l) (\<lambda>b. Inr (snd b)))
                         (q_parameter_index self)) (\<lambda>hi. Inr [lo, hi]))
       of Inl e \<Rightarrow> Some (Inl e) | Inr bounds_param \<Rightarrow>
      (case col_take q_step_2 (q_parameter_index self) 0 of Inl e \<Rightarrow> Some (Inl e) | Inr p \<Rightarrow>
      (case solve_loop so jm get_range_q self threshold q_step_2 bounds bounds_param
              \<lparr>guess_A = guess, guess_is_q_output = False, st_B = q_output, st_p = p,
               epsilon_markers_n = 10, epsilon_markers_n_minus_1 = 0,
               delta_epsilon_markers = 10 - 0, iteration = 0, st_q_out = None,
               jacobians_used = [jacobian_ini]\<rparr>
       of None \<Rightarrow> None
        | Some (Inl e) \<Rightarrow> Some (Inl e)
        | Some (Inr st) \<Rightarrow>
            (case st_q_out st of
               None \<Rightarrow> Some (Inl UnboundLocalError)
             | Some q_out \<Rightarrow>
                 Some (Inr \<lparr>res_q_out = q_out, res_p = st_p st,
                            res_jacobians_used = jacobians_used st\<rparr>))))))))"

section \<open>A small calibration problem\<close>

text \<open>
  A model of two dofs, the parameter \<open>p0\<close> and the kinematic dof \<open>k0\<close>, with one body
  marker followed by the two table markers. Its markers stay at the origin whatever the
  pose, and its last segment is level. The trial has two frames; the body marker is
  recorded at \<open>(1, 0, 0)\<close> in frame 0 and at the origin in frame 1, the table markers at the
  origin throughout.
\<close>

definition bm_ex :: biorbd where
  "bm_ex = \<lparr>nameDof = [''p0'', ''k0''],
            markerNames = [''M'', ''Table:Table5'', ''Table:Table6''],
            nbQ = 2, nbMarkers = 3, nbSegment = 1,
            markers_at = (\<lambda>q. [(0, 0, 0), (0, 0, 0), (0, 0, 0)]),
            globalJCS_rot = (\<lambda>q s i j. if i = j then 1 else 0)\<rparr>"

definition markers_ex :: array3 where
  "markers_ex = \<lparr>dim0 = 3, dim1 = 3, dim2 = 2,
                 cell3 = (\<lambda>i j f. if i = 0 \<and> j = 0 \<and> f = 0 then 1 else 0)\<rparr>"

definition args_ex :: kcc_args where
  "args_ex =
     \<lparr>arg_biorbd_model = bm_ex,
      arg_markers_model = [''M'', ''Table:Table5'', ''Table:Table6''],
      arg_markers = markers_ex,
      arg_closed_loop_markers = [''Table:Table5'', ''Table:Table6''],
      arg_tracked_markers = [''M'', ''Table:Table5'', ''Table:Table6''],
      arg_parameter_dofs = [''p0''],
      arg_kinematic_dofs = [''k0''],
      arg_weights_param = [1, 2, 3, 4, 5],
      arg_weights_ik = [1, 1, 1, 1, 1],
      arg_q_ik_initial_guess = np_zeros2 2 2,
      arg_nb_frames_ik_step = Some 2,
      arg_nb_frames_param_step = Some 2,
      arg_randomize_param_step_frames = True,
      arg_use_analytical_jacobians = False,
      arg_segment_id_with_vertical_z = None,
      arg_param_solver = ''leastsquare'',
      arg_ik_solver = ''leastsquare''\<rparr>"

text \<open>The object the constructor builds from these arguments.\<close>

definition kcc_ex :: kcc where
  "kcc_ex =
     \<lparr>biorbd_model = bm_ex,
      model_dofs = [''p0'', ''k0''],
      nb_markers = 3,
      nb_frames = 2,
      markers_model = [''M'', ''Table:Table5'', ''Table:Table6''],
      markers = markers_ex,
      closed_loop_markers = [''Table:Table5'', ''Table:Table6''],
      tracked_markers = [''M'', ''Table:Table5'', ''Table:Table6''],
      parameter_dofs = [''p0''],
      kinematic_dofs = [''k0''],
      table_markers_idx = [1, 2],
      model_markers_idx = [0, 1, 2],
      nb_markers_table = 2,
      nb_markers_model = 3,
      q_parameter_index = [0],
      q_kinematic_index = [1],
      nb_parameters_dofs = 1,
      nb_kinematic_dofs = 1,
      param_solver = ''leastsquare'',
      ik_solver = ''leastsquare'',
      q_ik_initial_guess = np_zeros2 2 2,
      nb_frames_ik_step = 2,
      nb_frames_param_step = Some 2,
      randomize_param_step_frames = True,
      use_analytical_jacobians = False,
      list_frames_param_step = [0, 1],
      weights_param = [1, 2, 3, 4, 5],
      weights_ik = [1, 1, 1, 1, 1],
      weight_list_param = [1, 1, 1, 1, 1, 2, 2, 2, 4, 3, 5, 5, 5, 5, 5],
      weight_list_ik = [1, 1, 1, 1, 1, 1, 1, 1, 1, 1, 1, 1, 1, 1, 1],
      segment_id_with_vertical_z = None\<rparr>"

text \<open>
  A generator for the examples: its state is a counter, a draw takes the first \<open>k\<close>
  elements of the population rotated left by the counter.
\<close>

definition rot_draw :: "nat drawer" where
  "rot_draw g population k =
     (let r = g mod length population in
      (take k (drop r population @ take r population), Suc g))"

text \<open>Optimisers that return their start point; the constrained one reports failure.\<close>

definition so_ex :: solvers where
  "so_ex = \<lparr>least_squares = (\<lambda>fun x0 bounds jac. \<lparr>ls_x = x0, ls_jac = np_zeros2 15 1\<rparr>),
            minimize_ipopt = (\<lambda>fun x0 cons bounds. \<lparr>ip_x = x0, ip_success = False\<rparr>),
            minimize_trust_constr = (\<lambda>fun x0 bounds. x0),
            minimize_ipopt_param = (\<lambda>fun x0 bounds. x0)\<rparr>"

definition jm_ex :: jacobians where
  "jm_ex = \<lparr>marker_jacobian_table = (\<lambda>x bm ti pi. np_zeros2 5 1),
            marker_jacobian_model = (\<lambda>x bm ti pi. np_zeros2 3 1),
            rotation_matrix_jacobian = (\<lambda>x bm s pi. np_zeros2 5 1),
            jacobian_q_continuity = (\<lambda>x pi. np_zeros2 1 1),
            marker_jacobian_theta = (\<lambda>x pi. np_zeros2 1 1)\<rparr>"

text \<open>
  Poses of two sampled frames for the parameter objective: the kinematic dof is 3 in the
  first and 1 in the second; and a trial whose markers are all recorded at the origin.
\<close>

definition x_two_frames :: array2 where
  "x_two_frames =
     \<lparr>nrows = 2, ncols = 2, cell = (\<lambda>i j. if i = 1 then (if j = 0 then 3 else 1) else 0)\<rparr>"

definition markers_zero :: array3 where
  "markers_zero = \<lparr>dim0 = 3, dim1 = 3, dim2 = 2, cell3 = (\<lambda>i j f. 0)\<rparr>"

text \<open>
  Variants of the arguments: three frames with randomisation switched off; closed-loop and
  tracked names that the model does not know; a marker list with an unknown name.
\<close>

definition args_fixed :: kcc_args where
  "args_fixed = args_ex\<lparr>arg_markers := \<lparr>dim0 = 3, dim1 = 3, dim2 = 3, cell3 = (\<lambda>i j f. 0)\<rparr>,
                       arg_nb_frames_ik_step := Some 3,
                       arg_randomize_param_step_frames := False\<rparr>"

definition args_ghost :: kcc_args where
  "args_ghost = args_ex\<lparr>arg_closed_loop_markers := [''Ghost5'', ''Ghost6''],
                       arg_tracked_markers := [''M'', ''Phantom'']\<rparr>"

definition args_bad :: kcc_args where
  "args_bad = args_ex\<lparr>arg_markers_model := [''M'', ''Table:Table5'', ''Nowhere'']\<rparr>"



text \<open>
  Joint ranges from \<open>-1\<close> to \<open>1\<close> for both dofs, and the state in which the loop of
  \<^verbatim>\<open>solve\<close> starts on the small problem.
\<close>

definition rq_ex :: "biorbd \<Rightarrow> vec \<times> vec" where
  "rq_ex bm = ([-1, -1], [1, 1])"

definition st_go :: solve_state where
  "st_go = \<lparr>guess_A = np_zeros2 2 2, guess_is_q_output = False, st_B = np_zeros2 2 2,
            st_p = [0], epsilon_markers_n = 10, epsilon_markers_n_minus_1 = 0,
            delta_epsilon_markers = 10 - 0, iteration = 0, st_q_out = None,
            jacobians_used = []\<rparr>"

text \<open>
  A variant of the model whose table markers sit at \<open>(1, 2, 3)\<close> and \<open>(4, 5, 6)\<close> and whose
  last segment is tilted, so that each of the five penalty blocks has its own values; block
  Jacobians whose entries tell the blocks apart; and a body-marker measurement that differs
  from the model in one coordinate.
\<close>

definition bm_tilt :: biorbd where
  "bm_tilt = bm_ex\<lparr>markers_at := (\<lambda>q. [(0, 0, 0), (1, 2, 3), (4, 5, 6)]),
                   globalJCS_rot := (\<lambda>q s i j. real (3 * i + j))\<rparr>"

definition kcc_tilt :: kcc where
  "kcc_tilt = kcc_ex\<lparr>biorbd_model := bm_tilt\<rparr>"

definition jm_blocks :: jacobians where
  "jm_blocks = \<lparr>marker_jacobian_table = (\<lambda>x bm ti pi. \<lparr>nrows = 5, ncols = 1, cell = (\<lambda>i j. 1)\<rparr>),
                marker_jacobian_model = (\<lambda>x bm ti pi. \<lparr>nrows = 3, ncols = 1, cell = (\<lambda>i j. 10)\<rparr>),
                rotation_matrix_jacobian = (\<lambda>x bm s pi. \<lparr>nrows = 5, ncols = 1, cell = (\<lambda>i j. 100)\<rparr>),
                jacobian_q_continuity = (\<lambda>x pi. \<lparr>nrows = 1, ncols = 1, cell = (\<lambda>i j. 1000)\<rparr>),
                marker_jacobian_theta = (\<lambda>x pi. \<lparr>nrows = 1, ncols = 1, cell = (\<lambda>i j. 10000)\<rparr>)\<rparr>"

definition wm_ex :: array2 where
  "wm_ex = \<lparr>nrows = 3, ncols = 1, cell = (\<lambda>i j. if i = 0 then 1 else 0)\<rparr>"

section \<open>Properties\<close>

subsection \<open>Auxiliary facts\<close>

lemma linalg_norm_sq: "(linalg_norm v)\<^sup>2 = (\<Sum>c \<leftarrow> v. c ^ 2)"
  unfolding linalg_norm_def by (auto intro!: sum_list_nonneg)

lemma linalg_norm_mult: "linalg_norm v * linalg_norm v = (\<Sum>c \<leftarrow> v. c * c)"
  using linalg_norm_sq [of v] by (simp add: power2_eq_square)

lemma theta_lim_bounds: "1 < theta_part1_3_lim" "theta_part1_3_lim < 3"
  using pi_ge_two pi_less_4 unfolding theta_part1_3_lim_def by simp_all

lemma py_slice3:
  "a + 3 \<le> length v \<Longrightarrow> py_slice v a (a + 3) = [v ! a, v ! (a + 1), v ! (a + 2)]"
  unfolding py_slice_def
  by (auto simp: list_eq_iff_nth_eq nth_Cons split: nat.splits)

lemma bind_err_Inr_iff:
  "bind_err m f = Inr r \<longleftrightarrow> (\<exists>v. m = Inr v \<and> f v = Inr r)"
  by (cases m) auto

lemma isl_bind_err: "isl (bind_err m f) \<longleftrightarrow> isl m \<or> (\<exists>v. m = Inr v \<and> isl (f v))"
  by (cases m) auto

lemma bind_err_case: "bind_err m f = (case m of Inl e \<Rightarrow> Inl e | Inr v \<Rightarrow> f v)"
  by (cases m) auto

subsection \<open>The penalties\<close>

text \<open>
  C5. With two closed-loop markers, at positions \<open>i0\<close> and \<open>i1\<close> of the marker list (any
  further table index is ignored), a position vector that holds three entries for each of
  them and a 3-by-2 array of table targets, the closed-loop penalty returns exactly five
  model values and five targets: the three coordinates of the first table marker against
  its target and the X and Y coordinates of the second against its target. The number of
  other markers, that is the length of the position vector, plays no part.
\<close>

theorem penalty_table_markers_five:
  assumes "table_markers_idx self = i0 # i1 # others"
      and "i0 * 3 + 3 \<le> length v" and "i1 * 3 + 3 \<le> length v"
      and "nrows t = 3" and "ncols t = 2"
  shows "penalty_table_markers self v t =
           Inr ([v ! (i0 * 3), v ! (i0 * 3 + 1), v ! (i0 * 3 + 2), v ! (i1 * 3), v ! (i1 * 3 + 1)],
                [cell t 0 0, cell t 1 0, cell t 2 0, cell t 0 1, cell t 1 1])
         \<and> (\<exists>mx. penalty_table_markers self v t = Inr mx \<and> length (residual mx) = 5)"
  using assms
  by (simp add: penalty_table_markers_def py_nth_def py_slice3 col_def col_upto_def Let_def
                upt_rec residual_def numeral_2_eq_2)

theorem penalty_table_markers_five_witness:
  "table_markers_idx kcc_ex = 1 # 2 # []
   \<and> (1::nat) * 3 + 3 \<le> length [9, 9, 9, 1, 2, 3, 4, 5, 6 :: real]
   \<and> (2::nat) * 3 + 3 \<le> length [9, 9, 9, 1, 2, 3, 4, 5, 6 :: real]
   \<and> nrows (np_zeros2 3 2) = 3 \<and> ncols (np_zeros2 3 2) = 2
   \<and> penalty_table_markers kcc_ex [9, 9, 9, 1, 2, 3, 4, 5, 6] (np_zeros2 3 2) =
       Inr ([1, 2, 3, 4, 5], [0, 0, 0, 0, 0])"
  using penalty_table_markers_five [of kcc_ex 1 2 "[]" "[9, 9, 9, 1, 2, 3, 4, 5, 6]" "np_zeros2 3 2"]
  by (simp add: kcc_ex_def np_zeros2_def)


text \<open>
  C6. For every pose \<open>q\<close> (of at least two coordinates) the pivot-angle penalty returns a
  single residual, model value minus target value, which is \<open>(q[-2] + q[-1]) - 7\<pi>/10\<close>
  when that sum exceeds \<open>7\<pi>/10\<close> and 0 otherwise. Written with
  \<open>q[-2] + q[-1] = 7\<pi>/10 + \<delta>\<close>, the residual is \<open>\<delta>\<close> for \<open>\<delta> > 0\<close> and 0 for
  \<open>\<delta> \<le> 0\<close>, the boundary \<open>\<delta> = 0\<close> included.
\<close>

theorem theta_pivot_penalty_residual:
  assumes "2 \<le> length q"
  shows "\<exists>mx. theta_pivot_penalty q = Inr mx \<and>
           residual mx =
             [if q ! (length q - 2) + q ! (length q - 1) > 7 * pi / 10
              then q ! (length q - 2) + q ! (length q - 1) - 7 * pi / 10 else 0] \<and>
           (\<forall>\<delta>. q ! (length q - 2) + q ! (length q - 1) = 7 * pi / 10 + \<delta> \<longrightarrow>
                residual mx = [if \<delta> > 0 then \<delta> else 0])"
  using assms
  by (auto simp: theta_pivot_penalty_def theta_part1_3_lim_def residual_def Let_def)

theorem theta_pivot_penalty_residual_witness:
  "2 \<le> length [0, 7 * pi / 10 + 1 :: real] \<and>
   (\<exists>mx. theta_pivot_penalty [0, 7 * pi / 10 + 1] = Inr mx \<and> residual mx = [1]) \<and>
   (\<exists>mx. theta_pivot_penalty [0, 7 * pi / 10] = Inr mx \<and> residual mx = [0])"
  using theta_pivot_penalty_residual [of "[0, 7 * pi / 10 + 1]"]
        theta_pivot_penalty_residual [of "[0, 7 * pi / 10]"]
  by simp

subsection \<open>Frame selection\<close>

lemma mset_take_sub: "mset (take k xs) \<subseteq># mset xs"
  by (metis append_take_drop_id mset_append mset_subset_eq_add_left)

lemma mset_drop_take: "mset (drop r xs @ take r xs) = mset xs"
  by (metis append_take_drop_id mset_append union_commute)

lemma rot_draw_contract: "draws_without_replacement rot_draw"
  unfolding draws_without_replacement_def rot_draw_def Let_def
  using mset_take_sub mset_drop_take
  by (metis fst_conv length_append length_take min.absorb2 append_take_drop_id add.commute
            min.commute)

lemma submset_distinct:
  assumes "mset ys \<subseteq># mset xs" "distinct xs"
  shows "distinct ys"
proof -
  have "count (mset ys) a \<le> 1" for a
    using assms mset_subset_eq_count [of "mset ys" "mset xs" a]
    by (metis distinct_count_atmost_1 le_trans zero_le_one count_mset_0_iff
              not_one_le_zero nat_le_linear)
  then show ?thesis
    by (metis distinct_count_atmost_1 count_mset_0_iff le_antisym less_one not_le)
qed

text \<open>
  C9. Let the generator draw without replacement, as \<^verbatim>\<open>random.sample\<close> does. For
  \<open>0 \<le> needed \<le> total_frames\<close> the selector returns exactly \<open>needed\<close> strictly increasing,
  distinct indices below \<open>total_frames\<close>. For a trial of \<open>total_frames \<ge> 0\<close> frames and
  \<open>needed > total_frames\<close> it fails with ValueError. Its result is a function of the
  generator state (what a seed fixes) and of the two numbers alone: it is the same for
  every object it is called on.
\<close>

theorem frame_selector_sorted_sample:
  assumes "draws_without_replacement draw"
  shows "(0 \<le> needed \<and> needed \<le> total_frames \<longrightarrow>
            (\<exists>fs g'. frame_selector draw self g (Some needed) total_frames = Inr (fs, g')
               \<and> int (length fs) = needed \<and> sorted_wrt (<) fs \<and> distinct fs
               \<and> (\<forall>i \<in> set fs. int i < total_frames)))
       \<and> (0 \<le> total_frames \<and> needed > total_frames \<longrightarrow>
            frame_selector draw self g (Some needed) total_frames = Inl ValueError)
       \<and> (\<forall>self'. frame_selector draw self' g (Some needed) total_frames
                   = frame_selector draw self g (Some needed) total_frames)"
proof (intro conjI impI allI)
  assume h: "0 \<le> needed \<and> needed \<le> total_frames"
  obtain ys g' where d: "draw g (py_range total_frames) (nat needed) = (ys, g')"
    by (cases "draw g (py_range total_frames) (nat needed)")
  have len: "nat needed \<le> length (py_range total_frames)"
    using h by (simp add: py_range_def nat_mono)
  from assms len d have l: "length ys = nat needed"
    and m: "mset ys \<subseteq># mset (py_range total_frames)"
    unfolding draws_without_replacement_def by (metis fst_conv)+
  have dist: "distinct ys"
    using submset_distinct [OF m] by (simp add: py_range_def)
  have sub: "set ys \<subseteq> set (py_range total_frames)"
    using m by (metis set_mset_mono set_mset_mset)
  have fs: "frame_selector draw self g (Some needed) total_frames = Inr (sort ys, g')"
    using h d by (simp add: frame_selector_def random_sample_def py_range_def)
  show "\<exists>fs g'. frame_selector draw self g (Some needed) total_frames = Inr (fs, g')
               \<and> int (length fs) = needed \<and> sorted_wrt (<) fs \<and> distinct fs
               \<and> (\<forall>i \<in> set fs. int i < total_frames)"
    using fs l dist sub h
    by (auto simp: strict_sorted_iff py_range_def)
next
  assume "0 \<le> total_frames \<and> total_frames < needed"
  then show "frame_selector draw self g (Some needed) total_frames = Inl ValueError"
    by (simp add: frame_selector_def random_sample_def py_range_def)
next
  fix self'
  show "frame_selector draw self' g (Some needed) total_frames
                   = frame_selector draw self g (Some needed) total_frames"
    by (simp add: frame_selector_def)
qed

theorem frame_selector_sorted_sample_witness:
  "draws_without_replacement rot_draw
   \<and> (0::int) \<le> 3 \<and> (3::int) \<le> 5
   \<and> frame_selector rot_draw kcc_ex 3 (Some 3) 5 = Inr ([0, 3, 4], 4)
   \<and> (0::int) \<le> 100 \<and> (150::int) > 100
   \<and> frame_selector rot_draw kcc_ex 3 (Some 150) 100 = Inl ValueError"
proof -
  have "frame_selector rot_draw kcc_ex 3 (Some 3) 5 = Inr ([0, 3, 4], 4)"
    using frame_selector_sorted_sample [OF rot_draw_contract, of 3 5 kcc_ex 3]
    by (simp add: frame_selector_def random_sample_def py_range_def rot_draw_def upt_rec Let_def)
  moreover have "frame_selector rot_draw kcc_ex 3 (Some 150) 100 = Inl ValueError"
    using frame_selector_sorted_sample [OF rot_draw_contract, of 150 100 kcc_ex 3] by simp
  ultimately show ?thesis
    using rot_draw_contract by simp
qed

subsection \<open>The constructor\<close>

lemma init_kcc_ex: "init_kcc rot_draw 0 args_ex = Inr (kcc_ex, 1)"
  by (simp add: init_kcc_def args_ex_def kcc_ex_def bm_ex_def markers_ex_def Let_def
        str_contains_def sublist_code py_index_def
        frame_selector_def random_sample_def py_range_def rot_draw_def build_weight_list_def
        py_nth_def py_repeat_def np_zeros2_def upt_rec eval_nat_numeral)

text \<open>
  C10, evaluated. With \<^verbatim>\<open>randomize_param_step_frames=False\<close>, three frames and two
  frames asked for, the constructor still draws from the generator: from generator state
  1 the frames of the parameter step are \<open>[1, 2]\<close>, not the first two frames \<open>[0, 1]\<close>. The
  flag is stored and never read.
\<close>

theorem init_kcc_ignores_randomize_flag:
  "arg_randomize_param_step_frames args_fixed = False
   \<and> arg_nb_frames_param_step args_fixed = Some 2
   \<and> map_sum id (list_frames_param_step \<circ> fst) (init_kcc rot_draw 1 args_fixed) = Inr [1, 2]"
  by (simp add: init_kcc_def args_fixed_def args_ex_def bm_ex_def markers_ex_def Let_def
        str_contains_def sublist_code py_index_def
        frame_selector_def random_sample_def py_range_def rot_draw_def build_weight_list_def
        py_nth_def py_repeat_def np_zeros2_def upt_rec)

lemma check_markers_model_Inr:
  "check_markers_model bm all_names names attr = Inr r \<Longrightarrow> set names \<subseteq> set (markerNames bm)"
  by (induction names arbitrary: attr) (auto split: if_splits)

lemma check_markers_model_bad:
  "\<not> set names \<subseteq> set (markerNames bm) \<Longrightarrow>
     check_markers_model bm all_names names attr = Inl ValueError"
  by (induction names arbitrary: attr) auto

lemma check_markers_model_attr:
  "check_markers_model bm all_names names attr = Inr (Some mm) \<Longrightarrow>
     attr = Some mm \<or> mm = all_names"
  by (induction names arbitrary: attr) (auto split: if_splits)

lemma init_kcc_Inr:
  assumes "init_kcc draw g a = Inr (self, g')"
  shows "markers_model self = arg_markers_model a \<and> biorbd_model self = arg_biorbd_model a
         \<and> set (arg_markers_model a) \<subseteq> set (markerNames (arg_biorbd_model a))"
proof -
  from assms obtain attr mm where
    c: "check_markers_model (arg_biorbd_model a) (arg_markers_model a) (arg_markers_model a) None
          = Inr attr"
    and a: "attr = Some mm" and m: "markers_model self = mm"
    and o: "biorbd_model self = arg_biorbd_model a"
    by (auto simp: init_kcc_def Let_def bind_err_Inr_iff split: if_splits option.splits)
  from check_markers_model_attr [of _ _ _ None mm] c a have "mm = arg_markers_model a" by auto
  with check_markers_model_Inr [OF c] m o show ?thesis by simp
qed

lemma index_from_found: "x \<in> set xs \<Longrightarrow> \<exists>k. index_from n xs x = Inr k"
  by (induction xs arbitrary: n) auto

lemma py_index_found: "x \<in> set xs \<Longrightarrow> \<exists>k. py_index xs x = Inr k"
  using index_from_found [of x xs 0] by (simp add: py_index_def)

lemma map_err_py_index_total:
  "set ys \<subseteq> set xs \<Longrightarrow> \<exists>r. map_err (py_index xs) ys = Inr r"
proof (induction ys)
  case Nil
  then show ?case by simp
next
  case (Cons y ys)
  then obtain k r where "py_index xs y = Inr k" "map_err (py_index xs) ys = Inr r"
    using py_index_found [of y xs] by auto
  then show ?case by simp
qed

lemma isl_build_weight_list:
  "isl (build_weight_list w c t n m) \<longleftrightarrow> length w < 5"
  by (auto simp: build_weight_list_def isl_bind_err py_nth_def Let_def)

lemma build_weight_list_clash:
  "build_weight_list w c t n m = Inl e \<Longrightarrow> build_weight_list w c' t' n' m' = Inr r \<Longrightarrow> False"
  using isl_build_weight_list [of w c t n m] isl_build_weight_list [of w c' t' n' m'] by simp

lemma init_kcc_isl_indep:
  "isl (init_kcc draw g (a\<lparr>arg_closed_loop_markers := c, arg_tracked_markers := t\<rparr>))
     = isl (init_kcc draw g a)"
proof -
  obtain r where r: "map_err (py_index t) t = Inr r"
    using map_err_py_index_total [of t t] by auto
  obtain r' where r': "map_err (py_index (arg_tracked_markers a)) (arg_tracked_markers a) = Inr r'"
    using map_err_py_index_total [of "arg_tracked_markers a" "arg_tracked_markers a"] by auto
  show ?thesis
    unfolding init_kcc_def Let_def
    by (auto simp: bind_err_case r r' frame_selector_def
             split: sum.splits option.splits if_splits
             dest: build_weight_list_clash)
qed

text \<open>
  C8 as stated fails: construction succeeds although a closed-loop name and a tracked name
  are neither in \<^verbatim>\<open>markers_model\<close> nor among the model's marker names.
\<close>

theorem init_kcc_accepts_unknown_closed_loop_marker:
  "\<not> isl (init_kcc rot_draw 0 args_ghost)
   \<and> ''Ghost5'' \<in> set (arg_closed_loop_markers args_ghost)
   \<and> ''Ghost5'' \<notin> set (arg_markers_model args_ghost)
   \<and> ''Ghost5'' \<notin> set (markerNames (arg_biorbd_model args_ghost))
   \<and> ''Phantom'' \<in> set (arg_tracked_markers args_ghost)
   \<and> ''Phantom'' \<notin> set (arg_markers_model args_ghost)
   \<and> ''Phantom'' \<notin> set (markerNames (arg_biorbd_model args_ghost))"
  by (simp add: init_kcc_def args_ghost_def args_ex_def bm_ex_def markers_ex_def Let_def
        str_contains_def sublist_code py_index_def
        frame_selector_def random_sample_def py_range_def rot_draw_def build_weight_list_def
        py_nth_def py_repeat_def np_zeros2_def upt_rec)

text \<open>
  C8 as amended. The names that the constructor checks are those of
  \<^verbatim>\<open>markers_model\<close>: it raises ValueError when one of them is not a marker name of the
  model, and after every construction that succeeds they are all marker names of the
  model. The names in \<^verbatim>\<open>closed_loop_markers\<close> and \<^verbatim>\<open>tracked_markers\<close> are not
  checked: replacing them by any other lists never changes whether construction succeeds.
\<close>

theorem init_kcc_checks_markers_model_only:
  "(\<not> set (arg_markers_model a) \<subseteq> set (markerNames (arg_biorbd_model a)) \<longrightarrow>
      init_kcc draw g a = Inl ValueError)
   \<and> (\<forall>self g'. init_kcc draw g a = Inr (self, g') \<longrightarrow>
        set (markers_model self) \<subseteq> set (markerNames (biorbd_model self)))
   \<and> isl (init_kcc draw g (a\<lparr>arg_closed_loop_markers := c, arg_tracked_markers := t\<rparr>))
       = isl (init_kcc draw g a)"
proof (intro conjI impI allI)
  assume "\<not> set (arg_markers_model a) \<subseteq> set (markerNames (arg_biorbd_model a))"
  then show "init_kcc draw g a = Inl ValueError"
    by (simp add: init_kcc_def check_markers_model_bad)
next
  fix self g'
  assume "init_kcc draw g a = Inr (self, g')"
  then show "set (markers_model self) \<subseteq> set (markerNames (biorbd_model self))"
    using init_kcc_Inr by metis
next
  show "isl (init_kcc draw g (a\<lparr>arg_closed_loop_markers := c, arg_tracked_markers := t\<rparr>))
          = isl (init_kcc draw g a)"
    by (rule init_kcc_isl_indep)
qed

theorem init_kcc_checks_markers_model_only_witness:
  "\<not> set (arg_markers_model args_bad) \<subseteq> set (markerNames (arg_biorbd_model args_bad))
   \<and> init_kcc rot_draw 0 args_bad = Inl ValueError
   \<and> init_kcc rot_draw 0 args_ex = Inr (kcc_ex, 1)
   \<and> set (markers_model kcc_ex) \<subseteq> set (markerNames (biorbd_model kcc_ex))"
proof -
  have bad: "\<not> set (arg_markers_model args_bad) \<subseteq> set (markerNames (arg_biorbd_model args_bad))"
    by (simp add: args_bad_def args_ex_def bm_ex_def)
  show ?thesis
    using bad init_kcc_ex
          init_kcc_checks_markers_model_only [of args_bad rot_draw 0]
          init_kcc_checks_markers_model_only [of args_ex rot_draw 0]
    by simp
qed

subsection \<open>Failure of the inverse-kinematics step\<close>

lemma bind_err_Inl_iff:
  "bind_err m f = Inl e \<longleftrightarrow> m = Inl e \<or> (\<exists>v. m = Inr v \<and> f v = Inl e)"
  by (cases m) auto


lemma bind_err_no_rt:
  "m \<noteq> Inl RuntimeError \<Longrightarrow> (\<And>v. m = Inr v \<Longrightarrow> f v \<noteq> Inl RuntimeError) \<Longrightarrow>
     bind_err m f \<noteq> Inl RuntimeError"
  by (cases m) auto

lemma prims_no_rt [simp]:
  "py_nth xs i \<noteq> Inl RuntimeError"
  "py_last xs \<noteq> Inl RuntimeError"
  "np_take a idx \<noteq> Inl RuntimeError"
  "np_put a idx v \<noteq> Inl RuntimeError"
  "np_binop g a b \<noteq> Inl RuntimeError"
  "col m j \<noteq> Inl RuntimeError"
  "col_upto m r j \<noteq> Inl RuntimeError"
  "col_take m idx j \<noteq> Inl RuntimeError"
  "col_put m idx j v \<noteq> Inl RuntimeError"
  "frame_take m3 idx j \<noteq> Inl RuntimeError"
  "frame_all m3 j \<noteq> Inl RuntimeError"
  "theta_pivot_penalty q \<noteq> Inl RuntimeError"
  by (simp_all add: py_nth_def py_last_def np_take_def np_put_def np_binop_def col_def
        col_upto_def col_take_def col_put_def frame_take_def frame_all_def
        theta_pivot_penalty_def Let_def)

lemma index_from_no_rt [simp]: "index_from k xs v \<noteq> Inl RuntimeError"
  by (induction xs arbitrary: k) auto

lemma py_index_no_rt [simp]: "py_index xs v \<noteq> Inl RuntimeError"
  by (simp add: py_index_def)

lemma np_concatenate_no_rt [simp]: "np_concatenate bs \<noteq> Inl RuntimeError"
  by (induction bs rule: np_concatenate.induct) (auto simp: bind_err_Inl_iff)

lemma espilon_loop_no_rt [simp]: "espilon_loop mp mc js acc \<noteq> Inl RuntimeError"
  by (induction js arbitrary: acc) (auto simp: bind_err_Inl_iff Let_def)

lemma q_open_loop_loop_no_rt [simp]: "q_open_loop_loop x q i acc \<noteq> Inl RuntimeError"
  by (induction x arbitrary: i acc) (auto simp: bind_err_Inl_iff)

lemma open_loop_loop_no_rt [simp]: "open_loop_loop self mv ol names acc \<noteq> Inl RuntimeError"
  by (induction names arbitrary: acc) (auto simp: bind_err_Inl_iff Let_def)

lemma penalty_table_markers_no_rt [simp]: "penalty_table_markers self v t \<noteq> Inl RuntimeError"
  by (auto simp: penalty_table_markers_def bind_err_Inl_iff Let_def)

lemma ik_blocks_no_rt [simp]: "ik_blocks self x p tm wm q \<noteq> Inl RuntimeError"
  by (auto simp: ik_blocks_def new_x_of_def penalty_open_loop_markers_def penalty_q_open_loop_def
        bind_err_Inl_iff Let_def split: option.splits)

lemma objective_ik_list_no_rt [simp]: "objective_ik_list self x p tm wm q \<noteq> Inl RuntimeError"
  by (auto simp: objective_ik_list_def bind_err_Inl_iff Let_def)

lemma ik_jacobian_no_rt [simp]: "ik_jacobian jm self x bm w \<noteq> Inl RuntimeError"
  by (auto simp: ik_jacobian_def bind_err_Inl_iff Let_def)

lemma ik_gradient_no_rt [simp]: "ik_gradient jm self x p tm wm q bm w \<noteq> Inl RuntimeError"
  by (auto simp: ik_gradient_def bind_err_Inl_iff Let_def split: option.splits if_splits)

lemma jac_scalar_no_rt [simp]: "jac_scalar jm self p f x0 x \<noteq> Inl RuntimeError"
  by (auto simp: jac_scalar_def bind_err_Inl_iff)

lemma x0_of_no_rt [simp]: "x0_of self f q \<noteq> Inl RuntimeError"
  by (simp add: x0_of_def)

lemma frame_espilon_no_rt [simp]: "frame_espilon self f q \<noteq> Inl RuntimeError"
  by (auto simp: frame_espilon_def bind_err_Inl_iff Let_def)







lemma length_to_array [simp]: "length (to_array v) = 3"
  by (cases v) (simp add: to_array_def)













subsection \<open>The calibration loop\<close>

lemma solve_loop_exit_aux:
  assumes "solve_loop so jm rq self threshold q2 bounds bp st = Some r"
  shows "\<forall>st'. r = Inr st' \<longrightarrow> \<bar>delta_epsilon_markers st'\<bar> \<le> threshold"
  by (rule solve_loop.raw_induct
        [where P = "\<lambda>so jm rq self threshold q2 bounds bp st r.
                      \<forall>st'. r = Inr st' \<longrightarrow> \<bar>delta_epsilon_markers st'\<bar> \<le> threshold",
         OF _ assms])
     (auto split: if_splits sum.splits)

lemma solve_loop_continue:
  "\<bar>delta_epsilon_markers st\<bar> > threshold \<Longrightarrow>
     solve_loop so jm rq self threshold q2 bounds bp st =
       (case solve_iteration so jm rq self q2 bounds bp st of
          Inl e \<Rightarrow> Some (Inl e)
        | Inr st1 \<Rightarrow> solve_loop so jm rq self threshold q2 bounds bp st1)"
  by (subst solve_loop.simps) simp

lemma solve_loop_stop:
  "\<bar>delta_epsilon_markers st\<bar> \<le> threshold \<Longrightarrow>
     solve_loop so jm rq self threshold q2 bounds bp st = Some (Inr st)"
  by (subst solve_loop.simps) simp

lemma solve_iteration_pass:
  assumes "solve_iteration so jm rq self q2 bounds bp st = Inr st1"
  shows "delta_epsilon_markers st1 = epsilon_markers_n st1 - epsilon_markers_n st
         \<and> epsilon_markers_n_minus_1 st1 = epsilon_markers_n st
         \<and> iteration st1 = iteration st + 1
         \<and> param_step so self q2 bounds bp st = Inr (st_p st1)
         \<and> (\<exists>guess q r. step_2 so jm (self\<lparr>q_ik_initial_guess := guess\<rparr>) (Some (st_p st1))
                            (rq (biorbd_model self)) q = Inr r
                  \<and> epsilon_markers_n st1 = fst (snd r)
                  \<and> st_q_out st1 = Some (fst r))"
proof -
  from assms obtain guess q r where
    s: "step_2 so jm (self\<lparr>q_ik_initial_guess := guess\<rparr>) (Some (st_p st1))
          (rq (biorbd_model self)) q = Inr r"
    and e: "epsilon_markers_n st1 = fst (snd r)" "st_q_out st1 = Some (fst r)"
      "epsilon_markers_n_minus_1 st1 = epsilon_markers_n st"
      "delta_epsilon_markers st1 = fst (snd r) - epsilon_markers_n st"
      "iteration st1 = iteration st + 1"
      "param_step so self q2 bounds bp st = Inr (st_p st1)"
    unfolding solve_iteration_def Let_def bind_err_Inr_iff
    by (elim exE conjE) (simp, force)
  from s e(1,2) have "\<exists>guess q r. step_2 so jm (self\<lparr>q_ik_initial_guess := guess\<rparr>)
        (Some (st_p st1)) (rq (biorbd_model self)) q = Inr r
      \<and> epsilon_markers_n st1 = fst (snd r) \<and> st_q_out st1 = Some (fst r)"
    by blast
  with e show ?thesis by simp
qed

lemma solve_loop_progress_aux:
  assumes "solve_loop so jm rq self threshold q2 bounds bp st = Some r"
  shows "\<forall>st'. r = Inr st' \<longrightarrow>
           iteration st \<le> iteration st'
           \<and> (iteration st' = iteration st \<longrightarrow> st' = st)
           \<and> (iteration st < iteration st' \<longrightarrow> st_q_out st' \<noteq> None)"
proof (rule solve_loop.raw_induct
        [where P = "\<lambda>so jm rq self threshold q2 bounds bp st r.
                      \<forall>st'. r = Inr st' \<longrightarrow>
                         iteration st \<le> iteration st'
                         \<and> (iteration st' = iteration st \<longrightarrow> st' = st)
                         \<and> (iteration st < iteration st' \<longrightarrow> st_q_out st' \<noteq> None)",
         OF _ assms], goal_cases)
  case (1 f so jm rq self threshold q2 bounds bp st r)
  show ?case
  proof (intro allI impI)
    fix st'
    assume r: "r = Inr st'"
    show "iteration st \<le> iteration st'
           \<and> (iteration st' = iteration st \<longrightarrow> st' = st)
           \<and> (iteration st < iteration st' \<longrightarrow> st_q_out st' \<noteq> None)"
    proof (cases "\<bar>delta_epsilon_markers st\<bar> > threshold")
      case False
      with 1(2) r show ?thesis by simp
    next
      case True
      with 1(2) r obtain st1 where
        it: "solve_iteration so jm rq self q2 bounds bp st = Inr st1"
        and rec: "f so jm rq self threshold q2 bounds bp st1 = Some (Inr st')"
        by (auto split: sum.splits)
      from 1(1) [OF rec] have
        ih: "iteration st1 \<le> iteration st'" "iteration st' = iteration st1 \<longrightarrow> st' = st1"
          "iteration st1 < iteration st' \<longrightarrow> st_q_out st' \<noteq> None"
        by simp_all
      from solve_iteration_pass [OF it] have
        p: "iteration st1 = iteration st + 1" "st_q_out st1 \<noteq> None"
        by auto
      from ih p show ?thesis
        by (cases "iteration st' = iteration st1") auto
    qed
  qed
qed

lemma solve_from_seed:
  assumes "seed_initial_guess self (zip (fst (rq (biorbd_model self))) (snd (rq (biorbd_model self))))
             = Inr guess"
      and "step_2 so jm (self\<lparr>q_ik_initial_guess := guess\<rparr>)
             (Some (replicate (nb_parameters_dofs self) 0)) (rq (biorbd_model self))
             (np_zeros2 (nbQ (biorbd_model self)) (nb_frames_ik_step self)) = Inr r"
      and "col guess 0 = Inr q0"
      and "map_err (\<lambda>k. bind_err (py_nth (zip (fst (rq (biorbd_model self)))
                                            (snd (rq (biorbd_model self)))) k)
                             (\<lambda>b. Inr (fst b))) (q_parameter_index self) = Inr lo"
      and "map_err (\<lambda>l. bind_err (py_nth (zip (fst (rq (biorbd_model self)))
                                            (snd (rq (biorbd_model self)))) l)
                             (\<lambda>b. Inr (snd b))) (q_parameter_index self) = Inr hi"
      and "col_take (fst r) (q_parameter_index self) 0 = Inr p"
  shows "solve so jm rq self threshold =
           (case solve_loop so jm rq self threshold (fst r)
                   (zip (fst (rq (biorbd_model self))) (snd (rq (biorbd_model self)))) [lo, hi]
                   \<lparr>guess_A = guess, guess_is_q_output = False,
                    st_B = np_zeros2 (nbQ (biorbd_model self)) (dim2 (markers self)), st_p = p,
                    epsilon_markers_n = 10, epsilon_markers_n_minus_1 = 0,
                    delta_epsilon_markers = 10 - 0, iteration = 0, st_q_out = None,
                    jacobians_used = [snd (snd r)]\<rparr> of
              None \<Rightarrow> None
            | Some (Inl e) \<Rightarrow> Some (Inl e)
            | Some (Inr st) \<Rightarrow>
                (case st_q_out st of
                   None \<Rightarrow> Some (Inl UnboundLocalError)
                 | Some q_out \<Rightarrow>
                     Some (Inr \<lparr>res_q_out = q_out, res_p = st_p st,
                                res_jacobians_used = jacobians_used st\<rparr>)))"
  using assms by (simp add: solve_def Let_def)

lemma solve_prelude:
  assumes "solve so jm rq self threshold = Some (Inr res) \<or> solve so jm rq self threshold = None"
  shows "\<exists>guess r q0 lo hi p.
           seed_initial_guess self (zip (fst (rq (biorbd_model self))) (snd (rq (biorbd_model self))))
             = Inr guess
         \<and> step_2 so jm (self\<lparr>q_ik_initial_guess := guess\<rparr>)
             (Some (replicate (nb_parameters_dofs self) 0)) (rq (biorbd_model self))
             (np_zeros2 (nbQ (biorbd_model self)) (nb_frames_ik_step self)) = Inr r
         \<and> col guess 0 = Inr q0
         \<and> map_err (\<lambda>k. bind_err (py_nth (zip (fst (rq (biorbd_model self)))
                                            (snd (rq (biorbd_model self)))) k)
                             (\<lambda>b. Inr (fst b))) (q_parameter_index self) = Inr lo
         \<and> map_err (\<lambda>l. bind_err (py_nth (zip (fst (rq (biorbd_model self)))
                                            (snd (rq (biorbd_model self)))) l)
                             (\<lambda>b. Inr (snd b))) (q_parameter_index self) = Inr hi
         \<and> col_take (fst r) (q_parameter_index self) 0 = Inr p"
  using assms
  by (auto simp: solve_def Let_def bind_err_Inr_iff split: sum.splits)

text \<open>
  C2. The loop of \<^verbatim>\<open>solve\<close> is governed by the delta test alone. (1) Whenever it
  ends normally, it ends in a state with \<open>|\<Delta>\<epsilon>| \<le> threshold\<close>. (2) In every state with
  \<open>|\<Delta>\<epsilon>| > threshold\<close>, whatever the value of \<open>\<epsilon>\<close>, it runs one more pass and goes on from
  the state that pass produces, or raises what the pass raises. (3) In a state with
  \<open>|\<Delta>\<epsilon>| \<le> threshold\<close> it stops at once. (4) A pass is the parameter step followed by the
  IK step run with the parameters that step returned; it sets \<open>\<Delta>\<epsilon> = \<epsilon>\<^sub>n - \<epsilon>\<^sub>n\<^sub>-\<^sub>1\<close>,
  where \<open>\<epsilon>\<^sub>n\<close> is the residual returned by its IK step and \<open>\<epsilon>\<^sub>n\<^sub>-\<^sub>1\<close> the previous \<open>\<epsilon>\<^sub>n\<close>,
  and counts the iteration. (5) Once its preparation (seeding of the initial guess, first
  IK step, bounds and start value of the parameters) has succeeded, \<^verbatim>\<open>solve\<close> is this
  loop run from the state with \<open>\<epsilon>\<^sub>n = 10\<close>, \<open>\<epsilon>\<^sub>n\<^sub>-\<^sub>1 = 0\<close> and \<open>\<Delta>\<epsilon> = 10\<close>: it returns what the
  last state of the loop holds, raises what the loop raises, and does not return when the
  loop does not end. (6) So every result of \<^verbatim>\<open>solve\<close> is read from the state in which
  that run of the loop ended, a state with \<open>|\<Delta>\<epsilon>| \<le> threshold\<close> reached after at least one
  pass, and the threshold is below 10. (7) When \<^verbatim>\<open>solve\<close> does not return, it is that
  run of the loop that does not end.
\<close>

theorem solve_loop_delta_criterion:
  "(\<forall>st'. solve_loop so jm rq self threshold q2 bounds bp st = Some (Inr st') \<longrightarrow>
        \<bar>delta_epsilon_markers st'\<bar> \<le> threshold)
   \<and> (\<bar>delta_epsilon_markers st\<bar> > threshold \<longrightarrow>
        solve_loop so jm rq self threshold q2 bounds bp st =
          (case solve_iteration so jm rq self q2 bounds bp st of
             Inl e \<Rightarrow> Some (Inl e)
           | Inr st1 \<Rightarrow> solve_loop so jm rq self threshold q2 bounds bp st1))
   \<and> (\<bar>delta_epsilon_markers st\<bar> \<le> threshold \<longrightarrow>
        solve_loop so jm rq self threshold q2 bounds bp st = Some (Inr st))
   \<and> (\<forall>st1. solve_iteration so jm rq self q2 bounds bp st = Inr st1 \<longrightarrow>
        delta_epsilon_markers st1 = epsilon_markers_n st1 - epsilon_markers_n_minus_1 st1
        \<and> epsilon_markers_n_minus_1 st1 = epsilon_markers_n st
        \<and> iteration st1 = iteration st + 1
        \<and> param_step so self q2 bounds bp st = Inr (st_p st1)
        \<and> (\<exists>guess q r. step_2 so jm (self\<lparr>q_ik_initial_guess := guess\<rparr>) (Some (st_p st1))
                           (rq (biorbd_model self)) q = Inr r
                 \<and> epsilon_markers_n st1 = fst (snd r)
                 \<and> st_q_out st1 = Some (fst r)))
   \<and> (\<forall>guess r q0 lo hi p.
        seed_initial_guess self (zip (fst (rq (biorbd_model self))) (snd (rq (biorbd_model self))))
             = Inr guess
           \<and> step_2 so jm (self\<lparr>q_ik_initial_guess := guess\<rparr>)
               (Some (replicate (nb_parameters_dofs self) 0)) (rq (biorbd_model self))
               (np_zeros2 (nbQ (biorbd_model self)) (nb_frames_ik_step self)) = Inr r
           \<and> col guess 0 = Inr q0
           \<and> map_err (\<lambda>k. bind_err (py_nth (zip (fst (rq (biorbd_model self)))
                                              (snd (rq (biorbd_model self)))) k)
                               (\<lambda>b. Inr (fst b))) (q_parameter_index self) = Inr lo
           \<and> map_err (\<lambda>l. bind_err (py_nth (zip (fst (rq (biorbd_model self)))
                                              (snd (rq (biorbd_model self)))) l)
                               (\<lambda>b. Inr (snd b))) (q_parameter_index self) = Inr hi
           \<and> col_take (fst r) (q_parameter_index self) 0 = Inr p
        \<longrightarrow> solve so jm rq self threshold =
           (case solve_loop so jm rq self threshold (fst r)
                   (zip (fst (rq (biorbd_model self))) (snd (rq (biorbd_model self)))) [lo, hi]
                   \<lparr>guess_A = guess, guess_is_q_output = False,
                    st_B = np_zeros2 (nbQ (biorbd_model self)) (dim2 (markers self)), st_p = p,
                    epsilon_markers_n = 10, epsilon_markers_n_minus_1 = 0,
                    delta_epsilon_markers = 10 - 0, iteration = 0, st_q_out = None,
                    jacobians_used = [snd (snd r)]\<rparr> of
              None \<Rightarrow> None
            | Some (Inl e) \<Rightarrow> Some (Inl e)
            | Some (Inr st2) \<Rightarrow>
                (case st_q_out st2 of
                   None \<Rightarrow> Some (Inl UnboundLocalError)
                 | Some q_out \<Rightarrow>
                     Some (Inr \<lparr>res_q_out = q_out, res_p = st_p st2,
                                res_jacobians_used = jacobians_used st2\<rparr>))))
   \<and> (\<forall>res. solve so jm rq self threshold = Some (Inr res) \<longrightarrow>
        (\<exists>guess r q0 lo hi p st2.
           seed_initial_guess self (zip (fst (rq (biorbd_model self))) (snd (rq (biorbd_model self))))
             = Inr guess
           \<and> step_2 so jm (self\<lparr>q_ik_initial_guess := guess\<rparr>)
               (Some (replicate (nb_parameters_dofs self) 0)) (rq (biorbd_model self))
               (np_zeros2 (nbQ (biorbd_model self)) (nb_frames_ik_step self)) = Inr r
           \<and> col guess 0 = Inr q0
           \<and> map_err (\<lambda>k. bind_err (py_nth (zip (fst (rq (biorbd_model self)))
                                              (snd (rq (biorbd_model self)))) k)
                               (\<lambda>b. Inr (fst b))) (q_parameter_index self) = Inr lo
           \<and> map_err (\<lambda>l. bind_err (py_nth (zip (fst (rq (biorbd_model self)))
                                              (snd (rq (biorbd_model self)))) l)
                               (\<lambda>b. Inr (snd b))) (q_parameter_index self) = Inr hi
           \<and> col_take (fst r) (q_parameter_index self) 0 = Inr p
           \<and> solve_loop so jm rq self threshold (fst r)
                   (zip (fst (rq (biorbd_model self))) (snd (rq (biorbd_model self)))) [lo, hi]
                   \<lparr>guess_A = guess, guess_is_q_output = False,
                    st_B = np_zeros2 (nbQ (biorbd_model self)) (dim2 (markers self)), st_p = p,
                    epsilon_markers_n = 10, epsilon_markers_n_minus_1 = 0,
                    delta_epsilon_markers = 10 - 0, iteration = 0, st_q_out = None,
                    jacobians_used = [snd (snd r)]\<rparr> = Some (Inr st2)
           \<and> \<bar>delta_epsilon_markers st2\<bar> \<le> threshold \<and> threshold < 10 \<and> 1 \<le> iteration st2
           \<and> st_q_out st2 = Some (res_q_out res) \<and> st_p st2 = res_p res
           \<and> jacobians_used st2 = res_jacobians_used res))
   \<and> (solve so jm rq self threshold = None \<longrightarrow>
        (\<exists>guess r q0 lo hi p.
           seed_initial_guess self (zip (fst (rq (biorbd_model self))) (snd (rq (biorbd_model self))))
             = Inr guess
           \<and> step_2 so jm (self\<lparr>q_ik_initial_guess := guess\<rparr>)
               (Some (replicate (nb_parameters_dofs self) 0)) (rq (biorbd_model self))
               (np_zeros2 (nbQ (biorbd_model self)) (nb_frames_ik_step self)) = Inr r
           \<and> col guess 0 = Inr q0
           \<and> map_err (\<lambda>k. bind_err (py_nth (zip (fst (rq (biorbd_model self)))
                                              (snd (rq (biorbd_model self)))) k)
                               (\<lambda>b. Inr (fst b))) (q_parameter_index self) = Inr lo
           \<and> map_err (\<lambda>l. bind_err (py_nth (zip (fst (rq (biorbd_model self)))
                                              (snd (rq (biorbd_model self)))) l)
                               (\<lambda>b. Inr (snd b))) (q_parameter_index self) = Inr hi
           \<and> col_take (fst r) (q_parameter_index self) 0 = Inr p
           \<and> solve_loop so jm rq self threshold (fst r)
                   (zip (fst (rq (biorbd_model self))) (snd (rq (biorbd_model self)))) [lo, hi]
                   \<lparr>guess_A = guess, guess_is_q_output = False,
                    st_B = np_zeros2 (nbQ (biorbd_model self)) (dim2 (markers self)), st_p = p,
                    epsilon_markers_n = 10, epsilon_markers_n_minus_1 = 0,
                    delta_epsilon_markers = 10 - 0, iteration = 0, st_q_out = None,
                    jacobians_used = [snd (snd r)]\<rparr> = None))"
proof (intro conjI impI allI)
  fix st'
  assume "solve_loop so jm rq self threshold q2 bounds bp st = Some (Inr st')"
  from solve_loop_exit_aux [OF this] show "\<bar>delta_epsilon_markers st'\<bar> \<le> threshold" by simp
next
  assume "\<bar>delta_epsilon_markers st\<bar> > threshold"
  then show "solve_loop so jm rq self threshold q2 bounds bp st =
          (case solve_iteration so jm rq self q2 bounds bp st of
             Inl e \<Rightarrow> Some (Inl e)
           | Inr st1 \<Rightarrow> solve_loop so jm rq self threshold q2 bounds bp st1)"
    by (rule solve_loop_continue)
next
  assume "\<bar>delta_epsilon_markers st\<bar> \<le> threshold"
  then show "solve_loop so jm rq self threshold q2 bounds bp st = Some (Inr st)"
    by (rule solve_loop_stop)
next
  fix st1
  assume a: "solve_iteration so jm rq self q2 bounds bp st = Inr st1"
  from solve_iteration_pass [OF a]
  show "delta_epsilon_markers st1 = epsilon_markers_n st1 - epsilon_markers_n_minus_1 st1"
    and "epsilon_markers_n_minus_1 st1 = epsilon_markers_n st"
    and "iteration st1 = iteration st + 1"
    and "param_step so self q2 bounds bp st = Inr (st_p st1)"
    and "\<exists>guess q r. step_2 so jm (self\<lparr>q_ik_initial_guess := guess\<rparr>) (Some (st_p st1))
                           (rq (biorbd_model self)) q = Inr r
                 \<and> epsilon_markers_n st1 = fst (snd r)
                 \<and> st_q_out st1 = Some (fst r)"
    by (simp, simp, simp, simp, blast)
next
  fix guess r q0 lo hi p
  assume "seed_initial_guess self (zip (fst (rq (biorbd_model self))) (snd (rq (biorbd_model self))))
             = Inr guess
           \<and> step_2 so jm (self\<lparr>q_ik_initial_guess := guess\<rparr>)
               (Some (replicate (nb_parameters_dofs self) 0)) (rq (biorbd_model self))
               (np_zeros2 (nbQ (biorbd_model self)) (nb_frames_ik_step self)) = Inr r
           \<and> col guess 0 = Inr q0
           \<and> map_err (\<lambda>k. bind_err (py_nth (zip (fst (rq (biorbd_model self)))
                                              (snd (rq (biorbd_model self)))) k)
                               (\<lambda>b. Inr (fst b))) (q_parameter_index self) = Inr lo
           \<and> map_err (\<lambda>l. bind_err (py_nth (zip (fst (rq (biorbd_model self)))
                                              (snd (rq (biorbd_model self)))) l)
                               (\<lambda>b. Inr (snd b))) (q_parameter_index self) = Inr hi
           \<and> col_take (fst r) (q_parameter_index self) 0 = Inr p"
  then show "solve so jm rq self threshold =
           (case solve_loop so jm rq self threshold (fst r)
                   (zip (fst (rq (biorbd_model self))) (snd (rq (biorbd_model self)))) [lo, hi]
                   \<lparr>guess_A = guess, guess_is_q_output = False,
                    st_B = np_zeros2 (nbQ (biorbd_model self)) (dim2 (markers self)), st_p = p,
                    epsilon_markers_n = 10, epsilon_markers_n_minus_1 = 0,
                    delta_epsilon_markers = 10 - 0, iteration = 0, st_q_out = None,
                    jacobians_used = [snd (snd r)]\<rparr> of
              None \<Rightarrow> None
            | Some (Inl e) \<Rightarrow> Some (Inl e)
            | Some (Inr st2) \<Rightarrow>
                (case st_q_out st2 of
                   None \<Rightarrow> Some (Inl UnboundLocalError)
                 | Some q_out \<Rightarrow>
                     Some (Inr \<lparr>res_q_out = q_out, res_p = st_p st2,
                                res_jacobians_used = jacobians_used st2\<rparr>)))"
    by (intro solve_from_seed) simp_all
next
  fix res
  assume s: "solve so jm rq self threshold = Some (Inr res)"
  from solve_prelude [of so jm rq self threshold res] s obtain guess r q0 lo hi p where
    pre: "seed_initial_guess self (zip (fst (rq (biorbd_model self))) (snd (rq (biorbd_model self))))
             = Inr guess
           \<and> step_2 so jm (self\<lparr>q_ik_initial_guess := guess\<rparr>)
               (Some (replicate (nb_parameters_dofs self) 0)) (rq (biorbd_model self))
               (np_zeros2 (nbQ (biorbd_model self)) (nb_frames_ik_step self)) = Inr r
           \<and> col guess 0 = Inr q0
           \<and> map_err (\<lambda>k. bind_err (py_nth (zip (fst (rq (biorbd_model self)))
                                              (snd (rq (biorbd_model self)))) k)
                               (\<lambda>b. Inr (fst b))) (q_parameter_index self) = Inr lo
           \<and> map_err (\<lambda>l. bind_err (py_nth (zip (fst (rq (biorbd_model self)))
                                              (snd (rq (biorbd_model self)))) l)
                               (\<lambda>b. Inr (snd b))) (q_parameter_index self) = Inr hi
           \<and> col_take (fst r) (q_parameter_index self) 0 = Inr p"
    by blast
  let ?seed = "\<lparr>guess_A = guess, guess_is_q_output = False,
                st_B = np_zeros2 (nbQ (biorbd_model self)) (dim2 (markers self)), st_p = p,
                epsilon_markers_n = 10, epsilon_markers_n_minus_1 = 0,
                delta_epsilon_markers = 10 - 0, iteration = 0, st_q_out = None,
                jacobians_used = [snd (snd r)]\<rparr> :: solve_state"
  let ?loop = "solve_loop so jm rq self threshold (fst r)
                   (zip (fst (rq (biorbd_model self))) (snd (rq (biorbd_model self)))) [lo, hi]
                   \<lparr>guess_A = guess, guess_is_q_output = False,
                    st_B = np_zeros2 (nbQ (biorbd_model self)) (dim2 (markers self)), st_p = p,
                    epsilon_markers_n = 10, epsilon_markers_n_minus_1 = 0,
                    delta_epsilon_markers = 10 - 0, iteration = 0, st_q_out = None,
                    jacobians_used = [snd (snd r)]\<rparr>"
  from pre have eq: "solve so jm rq self threshold =
           (case ?loop of
              None \<Rightarrow> None
            | Some (Inl e) \<Rightarrow> Some (Inl e)
            | Some (Inr st2) \<Rightarrow>
                (case st_q_out st2 of
                   None \<Rightarrow> Some (Inl UnboundLocalError)
                 | Some q_out \<Rightarrow>
                     Some (Inr \<lparr>res_q_out = q_out, res_p = st_p st2,
                                res_jacobians_used = jacobians_used st2\<rparr>)))"
    by (intro solve_from_seed) simp_all
  from s eq obtain st2 where
    l: "?loop = Some (Inr st2)"
    and o: "st_q_out st2 = Some (res_q_out res)" "st_p st2 = res_p res"
      "jacobians_used st2 = res_jacobians_used res"
    by (auto split: option.splits sum.splits)
  from solve_loop_exit_aux [OF l] have d: "\<bar>delta_epsilon_markers st2\<bar> \<le> threshold" by simp
  from solve_loop_progress_aux [OF l] have
    pr: "iteration st2 = 0 \<longrightarrow> st2 = ?seed"
    by simp
  from pr o(1) have i: "1 \<le> iteration st2"
    by (cases "iteration st2 = 0") auto
  have t: "threshold < 10"
  proof (rule ccontr)
    assume "\<not> threshold < 10"
    then have "\<bar>delta_epsilon_markers ?seed\<bar> \<le> threshold" by simp
    from solve_loop_stop [OF this, of so jm rq self "fst r"
        "zip (fst (rq (biorbd_model self))) (snd (rq (biorbd_model self)))" "[lo, hi]"] l
    have "st2 = ?seed" by simp
    with o(1) show False by (cases "st_q_out st2") auto
  qed
  from pre l d t i o
  show "\<exists>guess r q0 lo hi p st2.
           seed_initial_guess self (zip (fst (rq (biorbd_model self))) (snd (rq (biorbd_model self))))
             = Inr guess
           \<and> step_2 so jm (self\<lparr>q_ik_initial_guess := guess\<rparr>)
               (Some (replicate (nb_parameters_dofs self) 0)) (rq (biorbd_model self))
               (np_zeros2 (nbQ (biorbd_model self)) (nb_frames_ik_step self)) = Inr r
           \<and> col guess 0 = Inr q0
           \<and> map_err (\<lambda>k. bind_err (py_nth (zip (fst (rq (biorbd_model self)))
                                              (snd (rq (biorbd_model self)))) k)
                               (\<lambda>b. Inr (fst b))) (q_parameter_index self) = Inr lo
           \<and> map_err (\<lambda>l. bind_err (py_nth (zip (fst (rq (biorbd_model self)))
                                              (snd (rq (biorbd_model self)))) l)
                               (\<lambda>b. Inr (snd b))) (q_parameter_index self) = Inr hi
           \<and> col_take (fst r) (q_parameter_index self) 0 = Inr p
           \<and> solve_loop so jm rq self threshold (fst r)
                   (zip (fst (rq (biorbd_model self))) (snd (rq (biorbd_model self)))) [lo, hi]
                   \<lparr>guess_A = guess, guess_is_q_output = False,
                    st_B = np_zeros2 (nbQ (biorbd_model self)) (dim2 (markers self)), st_p = p,
                    epsilon_markers_n = 10, epsilon_markers_n_minus_1 = 0,
                    delta_epsilon_markers = 10 - 0, iteration = 0, st_q_out = None,
                    jacobians_used = [snd (snd r)]\<rparr> = Some (Inr st2)
           \<and> \<bar>delta_epsilon_markers st2\<bar> \<le> threshold \<and> threshold < 10 \<and> 1 \<le> iteration st2
           \<and> st_q_out st2 = Some (res_q_out res) \<and> st_p st2 = res_p res
           \<and> jacobians_used st2 = res_jacobians_used res"
    by blast
next
  assume s: "solve so jm rq self threshold = None"
  from solve_prelude [of so jm rq self threshold undefined] s obtain guess r q0 lo hi p where
    pre: "seed_initial_guess self (zip (fst (rq (biorbd_model self))) (snd (rq (biorbd_model self))))
             = Inr guess
           \<and> step_2 so jm (self\<lparr>q_ik_initial_guess := guess\<rparr>)
               (Some (replicate (nb_parameters_dofs self) 0)) (rq (biorbd_model self))
               (np_zeros2 (nbQ (biorbd_model self)) (nb_frames_ik_step self)) = Inr r
           \<and> col guess 0 = Inr q0
           \<and> map_err (\<lambda>k. bind_err (py_nth (zip (fst (rq (biorbd_model self)))
                                              (snd (rq (biorbd_model self)))) k)
                               (\<lambda>b. Inr (fst b))) (q_parameter_index self) = Inr lo
           \<and> map_err (\<lambda>l. bind_err (py_nth (zip (fst (rq (biorbd_model self)))
                                              (snd (rq (biorbd_model self)))) l)
                               (\<lambda>b. Inr (snd b))) (q_parameter_index self) = Inr hi
           \<and> col_take (fst r) (q_parameter_index self) 0 = Inr p"
    by blast
  from pre have eq: "solve so jm rq self threshold =
           (case solve_loop so jm rq self threshold (fst r)
                   (zip (fst (rq (biorbd_model self))) (snd (rq (biorbd_model self)))) [lo, hi]
                   \<lparr>guess_A = guess, guess_is_q_output = False,
                    st_B = np_zeros2 (nbQ (biorbd_model self)) (dim2 (markers self)), st_p = p,
                    epsilon_markers_n = 10, epsilon_markers_n_minus_1 = 0,
                    delta_epsilon_markers = 10 - 0, iteration = 0, st_q_out = None,
                    jacobians_used = [snd (snd r)]\<rparr> of
              None \<Rightarrow> None
            | Some (Inl e) \<Rightarrow> Some (Inl e)
            | Some (Inr st2) \<Rightarrow>
                (case st_q_out st2 of
                   None \<Rightarrow> Some (Inl UnboundLocalError)
                 | Some q_out \<Rightarrow>
                     Some (Inr \<lparr>res_q_out = q_out, res_p = st_p st2,
                                res_jacobians_used = jacobians_used st2\<rparr>)))"
    by (intro solve_from_seed) simp_all
  from s eq have "solve_loop so jm rq self threshold (fst r)
                   (zip (fst (rq (biorbd_model self))) (snd (rq (biorbd_model self)))) [lo, hi]
                   \<lparr>guess_A = guess, guess_is_q_output = False,
                    st_B = np_zeros2 (nbQ (biorbd_model self)) (dim2 (markers self)), st_p = p,
                    epsilon_markers_n = 10, epsilon_markers_n_minus_1 = 0,
                    delta_epsilon_markers = 10 - 0, iteration = 0, st_q_out = None,
                    jacobians_used = [snd (snd r)]\<rparr> = None"
    by (auto split: option.splits sum.splits)
  with pre show "\<exists>guess r q0 lo hi p.
           seed_initial_guess self (zip (fst (rq (biorbd_model self))) (snd (rq (biorbd_model self))))
             = Inr guess
           \<and> step_2 so jm (self\<lparr>q_ik_initial_guess := guess\<rparr>)
               (Some (replicate (nb_parameters_dofs self) 0)) (rq (biorbd_model self))
               (np_zeros2 (nbQ (biorbd_model self)) (nb_frames_ik_step self)) = Inr r
           \<and> col guess 0 = Inr q0
           \<and> map_err (\<lambda>k. bind_err (py_nth (zip (fst (rq (biorbd_model self)))
                                              (snd (rq (biorbd_model self)))) k)
                               (\<lambda>b. Inr (fst b))) (q_parameter_index self) = Inr lo
           \<and> map_err (\<lambda>l. bind_err (py_nth (zip (fst (rq (biorbd_model self)))
                                              (snd (rq (biorbd_model self)))) l)
                               (\<lambda>b. Inr (snd b))) (q_parameter_index self) = Inr hi
           \<and> col_take (fst r) (q_parameter_index self) 0 = Inr p
           \<and> solve_loop so jm rq self threshold (fst r)
                   (zip (fst (rq (biorbd_model self))) (snd (rq (biorbd_model self)))) [lo, hi]
                   \<lparr>guess_A = guess, guess_is_q_output = False,
                    st_B = np_zeros2 (nbQ (biorbd_model self)) (dim2 (markers self)), st_p = p,
                    epsilon_markers_n = 10, epsilon_markers_n_minus_1 = 0,
                    delta_epsilon_markers = 10 - 0, iteration = 0, st_q_out = None,
                    jacobians_used = [snd (snd r)]\<rparr> = None"
    by blast
qed

lemma upt_numeral_rec:
  "[i..<numeral n] = (if i < numeral n then i # [Suc i..<numeral n] else [])"
  by (rule upt_rec)

lemmas solve_eval =
  solve_def seed_initial_guess_def solve_iteration_def param_step_def
  rows_put_def repeated_columns_def cols_take_def frames_take_def view_col_def rq_ex_def
  step_2_def step_2_frame_def x0_of_def ls_call_def frame_espilon_def
  kcc_ex_def so_ex_def bm_ex_def markers_ex_def
  np_take_def col_take_def col_put_def col_def frame_take_def frame_all_def np_zeros2_def
  index_table_markers_of_def index_wu_markers_of_def str_contains_def sublist_code
  py_nth_def np_binop_def to_array_def linalg_norm_sq Let_def upt_numeral_rec

lemma solve_iteration_ex:
  "map_sum id (\<lambda>s. (epsilon_markers_n s, delta_epsilon_markers s, iteration s))
     (solve_iteration so_ex jm_ex rq_ex kcc_ex (np_zeros2 2 2) [(-1, 1), (-1, 1)] [[-1], [1]]
        st_go)
   = Inr (0, -10, 1)"
  by (simp add: solve_eval st_go_def split del: if_split)

lemma solve_ex:
  "map_option (map_sum id res_p) (solve so_ex jm_ex rq_ex kcc_ex (1/2)) = Some (Inr [0])"
  apply (simp add: solve_eval split del: if_split)
  apply (subst solve_loop.simps)
  apply (simp add: solve_eval split del: if_split)
  apply (subst solve_loop.simps)
  apply (simp add: solve_eval split del: if_split)
  apply (subst solve_loop.simps)
  apply (simp add: solve_eval split del: if_split)
  done

text \<open>
  On the small problem with threshold \<open>1/2\<close>: the loop starts with \<open>\<Delta>\<epsilon> = 10\<close>, the first
  pass returns \<open>\<epsilon> = 0\<close> and \<open>\<Delta>\<epsilon> = -10\<close>, so a second pass runs although \<open>\<epsilon>\<close> is already 0;
  the second pass gives \<open>\<Delta>\<epsilon> = 0\<close> and \<^verbatim>\<open>solve\<close> returns.
\<close>

theorem solve_loop_delta_criterion_witness:
  "\<bar>delta_epsilon_markers st_go\<bar> > 1 / 2
   \<and> map_sum id (\<lambda>s. (epsilon_markers_n s, delta_epsilon_markers s, iteration s))
        (solve_iteration so_ex jm_ex rq_ex kcc_ex (np_zeros2 2 2) [(-1, 1), (-1, 1)] [[-1], [1]]
           st_go)
       = Inr (0, -10, 1)
   \<and> \<bar>delta_epsilon_markers (st_go\<lparr>delta_epsilon_markers := 0\<rparr>)\<bar> \<le> 1 / 2
   \<and> solve_loop so_ex jm_ex rq_ex kcc_ex (1 / 2) (np_zeros2 2 2) [(-1, 1), (-1, 1)] [[-1], [1]]
         (st_go\<lparr>delta_epsilon_markers := 0\<rparr>) = Some (Inr (st_go\<lparr>delta_epsilon_markers := 0\<rparr>))
   \<and> map_option (map_sum id res_p) (solve so_ex jm_ex rq_ex kcc_ex (1 / 2)) = Some (Inr [0])
   \<and> (\<exists>res guess r q0 lo hi p st2.
           solve so_ex jm_ex rq_ex kcc_ex (1 / 2) = Some (Inr res) \<and> res_p res = [0]
           \<and> seed_initial_guess kcc_ex (zip (fst (rq_ex (biorbd_model kcc_ex))) (snd (rq_ex (biorbd_model kcc_ex))))
             = Inr guess
           \<and> step_2 so_ex jm_ex (kcc_ex\<lparr>q_ik_initial_guess := guess\<rparr>)
               (Some (replicate (nb_parameters_dofs kcc_ex) 0)) (rq_ex (biorbd_model kcc_ex))
               (np_zeros2 (nbQ (biorbd_model kcc_ex)) (nb_frames_ik_step kcc_ex)) = Inr r
           \<and> col guess 0 = Inr q0
           \<and> map_err (\<lambda>k. bind_err (py_nth (zip (fst (rq_ex (biorbd_model kcc_ex)))
                                              (snd (rq_ex (biorbd_model kcc_ex)))) k)
                               (\<lambda>b. Inr (fst b))) (q_parameter_index kcc_ex) = Inr lo
           \<and> map_err (\<lambda>l. bind_err (py_nth (zip (fst (rq_ex (biorbd_model kcc_ex)))
                                              (snd (rq_ex (biorbd_model kcc_ex)))) l)
                               (\<lambda>b. Inr (snd b))) (q_parameter_index kcc_ex) = Inr hi
           \<and> col_take (fst r) (q_parameter_index kcc_ex) 0 = Inr p
           \<and> solve_loop so_ex jm_ex rq_ex kcc_ex (1 / 2) (fst r)
                   (zip (fst (rq_ex (biorbd_model kcc_ex))) (snd (rq_ex (biorbd_model kcc_ex)))) [lo, hi]
                   \<lparr>guess_A = guess, guess_is_q_output = False,
                    st_B = np_zeros2 (nbQ (biorbd_model kcc_ex)) (dim2 (markers kcc_ex)), st_p = p,
                    epsilon_markers_n = 10, epsilon_markers_n_minus_1 = 0,
                    delta_epsilon_markers = 10 - 0, iteration = 0, st_q_out = None,
                    jacobians_used = [snd (snd r)]\<rparr> = Some (Inr st2)
           \<and> \<bar>delta_epsilon_markers st2\<bar> \<le> 1 / 2 \<and> 1 \<le> iteration st2
           \<and> st_q_out st2 = Some (res_q_out res) \<and> st_p st2 = res_p res
           \<and> jacobians_used st2 = res_jacobians_used res)"
proof -
  have go: "\<bar>delta_epsilon_markers st_go\<bar> > 1 / 2"
    and stop: "\<bar>delta_epsilon_markers (st_go\<lparr>delta_epsilon_markers := 0\<rparr>)\<bar> \<le> 1 / 2"
    by (simp_all add: st_go_def)
  from solve_ex obtain res where res: "solve so_ex jm_ex rq_ex kcc_ex (1 / 2) = Some (Inr res)"
    and rp: "res_p res = [0]"
    by (cases "solve so_ex jm_ex rq_ex kcc_ex (1 / 2)") (auto simp: map_sum_def split: sum.splits)
  note t1 = solve_loop_delta_criterion [where so = so_ex and jm = jm_ex and rq = rq_ex
      and self = kcc_ex and threshold = "1 / 2" and ?q2.0 = "np_zeros2 2 2"
      and bounds = "[(-1, 1), (-1, 1)]" and bp = "[[-1], [1]]"
      and st = "st_go\<lparr>delta_epsilon_markers := 0\<rparr>"]
  from t1 stop have s: "solve_loop so_ex jm_ex rq_ex kcc_ex (1 / 2) (np_zeros2 2 2)
      [(-1, 1), (-1, 1)] [[-1], [1]] (st_go\<lparr>delta_epsilon_markers := 0\<rparr>)
      = Some (Inr (st_go\<lparr>delta_epsilon_markers := 0\<rparr>))"
    by blast
  from t1 have "\<forall>res. solve so_ex jm_ex rq_ex kcc_ex (1 / 2) = Some (Inr res) \<longrightarrow>
        (\<exists>guess r q0 lo hi p st2.
           seed_initial_guess kcc_ex (zip (fst (rq_ex (biorbd_model kcc_ex))) (snd (rq_ex (biorbd_model kcc_ex))))
             = Inr guess
           \<and> step_2 so_ex jm_ex (kcc_ex\<lparr>q_ik_initial_guess := guess\<rparr>)
               (Some (replicate (nb_parameters_dofs kcc_ex) 0)) (rq_ex (biorbd_model kcc_ex))
               (np_zeros2 (nbQ (biorbd_model kcc_ex)) (nb_frames_ik_step kcc_ex)) = Inr r
           \<and> col guess 0 = Inr q0
           \<and> map_err (\<lambda>k. bind_err (py_nth (zip (fst (rq_ex (biorbd_model kcc_ex)))
                                              (snd (rq_ex (biorbd_model kcc_ex)))) k)
                               (\<lambda>b. Inr (fst b))) (q_parameter_index kcc_ex) = Inr lo
           \<and> map_err (\<lambda>l. bind_err (py_nth (zip (fst (rq_ex (biorbd_model kcc_ex)))
                                              (snd (rq_ex (biorbd_model kcc_ex)))) l)
                               (\<lambda>b. Inr (snd b))) (q_parameter_index kcc_ex) = Inr hi
           \<and> col_take (fst r) (q_parameter_index kcc_ex) 0 = Inr p
           \<and> solve_loop so_ex jm_ex rq_ex kcc_ex (1 / 2) (fst r)
                   (zip (fst (rq_ex (biorbd_model kcc_ex))) (snd (rq_ex (biorbd_model kcc_ex)))) [lo, hi]
                   \<lparr>guess_A = guess, guess_is_q_output = False,
                    st_B = np_zeros2 (nbQ (biorbd_model kcc_ex)) (dim2 (markers kcc_ex)), st_p = p,
                    epsilon_markers_n = 10, epsilon_markers_n_minus_1 = 0,
                    delta_epsilon_markers = 10 - 0, iteration = 0, st_q_out = None,
                    jacobians_used = [snd (snd r)]\<rparr> = Some (Inr st2)
           \<and> \<bar>delta_epsilon_markers st2\<bar> \<le> 1 / 2 \<and> (1 / 2 :: real) < 10 \<and> 1 \<le> iteration st2
           \<and> st_q_out st2 = Some (res_q_out res) \<and> st_p st2 = res_p res
           \<and> jacobians_used st2 = res_jacobians_used res)"
    by blast
  with res rp have r: "(\<exists>res guess r q0 lo hi p st2.
           solve so_ex jm_ex rq_ex kcc_ex (1 / 2) = Some (Inr res) \<and> res_p res = [0]
           \<and> seed_initial_guess kcc_ex (zip (fst (rq_ex (biorbd_model kcc_ex))) (snd (rq_ex (biorbd_model kcc_ex))))
             = Inr guess
           \<and> step_2 so_ex jm_ex (kcc_ex\<lparr>q_ik_initial_guess := guess\<rparr>)
               (Some (replicate (nb_parameters_dofs kcc_ex) 0)) (rq_ex (biorbd_model kcc_ex))
               (np_zeros2 (nbQ (biorbd_model kcc_ex)) (nb_frames_ik_step kcc_ex)) = Inr r
           \<and> col guess 0 = Inr q0
           \<and> map_err (\<lambda>k. bind_err (py_nth (zip (fst (rq_ex (biorbd_model kcc_ex)))
                                              (snd (rq_ex (biorbd_model kcc_ex)))) k)
                               (\<lambda>b. Inr (fst b))) (q_parameter_index kcc_ex) = Inr lo
           \<and> map_err (\<lambda>l. bind_err (py_nth (zip (fst (rq_ex (biorbd_model kcc_ex)))
                                              (snd (rq_ex (biorbd_model kcc_ex)))) l)
                               (\<lambda>b. Inr (snd b))) (q_parameter_index kcc_ex) = Inr hi
           \<and> col_take (fst r) (q_parameter_index kcc_ex) 0 = Inr p
           \<and> solve_loop so_ex jm_ex rq_ex kcc_ex (1 / 2) (fst r)
                   (zip (fst (rq_ex (biorbd_model kcc_ex))) (snd (rq_ex (biorbd_model kcc_ex)))) [lo, hi]
                   \<lparr>guess_A = guess, guess_is_q_output = False,
                    st_B = np_zeros2 (nbQ (biorbd_model kcc_ex)) (dim2 (markers kcc_ex)), st_p = p,
                    epsilon_markers_n = 10, epsilon_markers_n_minus_1 = 0,
                    delta_epsilon_markers = 10 - 0, iteration = 0, st_q_out = None,
                    jacobians_used = [snd (snd r)]\<rparr> = Some (Inr st2)
           \<and> \<bar>delta_epsilon_markers st2\<bar> \<le> 1 / 2 \<and> 1 \<le> iteration st2
           \<and> st_q_out st2 = Some (res_q_out res) \<and> st_p st2 = res_p res
           \<and> jacobians_used st2 = res_jacobians_used res)"
    by blast
  show ?thesis
    using go stop s r solve_iteration_ex solve_ex by simp
qed

subsection \<open>The residual of the inverse-kinematics step\<close>

text \<open>
  C1, evaluated on the small problem. The body marker is off by 1 in frame 0 and matched
  in frame 1, and the least-squares routine returns its start point. The squared error of
  the body marker at frame 0 is 1, so the sum over the frames of the trial is 1; the
  residual that \<^verbatim>\<open>step_2\<close> returns is 0, the sum of the last frame alone.
\<close>

theorem step_2_espilon_is_last_frame_only:
  "map_sum id (fst \<circ> snd)
     (step_2 so_ex jm_ex kcc_ex (Some [0]) ([-1, -1], [1, 1]) (np_zeros2 2 2)) = Inr 0
   \<and> bind_err (frame_all markers_ex 0)
        (\<lambda>frame0. espilon_loop (markers_at bm_ex [0, 0]) frame0 [0..<1] 0) = Inr 1"
  by (simp add: step_2_def step_2_frame_def x0_of_def ls_call_def frame_espilon_def
        kcc_ex_def so_ex_def bm_ex_def markers_ex_def
        np_take_def col_take_def col_put_def col_def frame_take_def frame_all_def np_zeros2_def
        index_table_markers_of_def index_wu_markers_of_def str_contains_def sublist_code
        py_nth_def np_binop_def to_array_def linalg_norm_sq Let_def upt_rec)

subsection \<open>The parameter-identification objective\<close>

text \<open>
  C3, evaluated on the small problem with all markers matched and weights 1. The two
  sampled poses are \<open>[0, 3]\<close> and \<open>[0, 1]\<close>, the supplied initial pose is \<open>[0, 0]\<close>. The
  first pose is over the pivot limit and differs from the initial pose; the second pose
  differs from the first. The objective is 0 all the same: the pivot and continuity terms
  of the first frame are overwritten by those of the last, and the continuity term of the
  last frame compares the buffer with itself.
\<close>

theorem objective_function_param_keeps_last_frame_only:
  "objective_function_param kcc_ex [0] x_two_frames [0, 0] markers_zero [1, 1, 1, 1, 1] = Inr 0
   \<and> map_sum id residual (theta_pivot_penalty [0, 3]) = Inr [3 - 7 * pi / 10]
   \<and> map_sum id residual (penalty_q_open_loop [0, 3] [0, 0]) = Inr [0, 3]
   \<and> map_sum id residual (penalty_q_open_loop [0, 1] [0, 3]) = Inr [0, - 2]"
  using theta_lim_bounds
  by (simp add: objective_function_param_def param_frame_def kcc_ex_def bm_ex_def
        markers_zero_def x_two_frames_def np_put_def col_take_def frame_slice_def
        index_wu_markers_of_def py_last_def penalty_table_markers_def
        penalty_open_loop_markers_def penalty_rotation_matrix_def penalty_q_open_loop_def
        theta_pivot_penalty_def vect_pos_markers_of_def py_index_def py_slice_def col_def
        col_upto_def str_contains_def sublist_code py_nth_def np_binop_def to_array_def
        linalg_norm_sq linalg_norm_mult residual_def Let_def upt_rec eval_nat_numeral)
      (simp add: theta_part1_3_lim_def)

subsection \<open>The weighted residual and its Jacobian\<close>

text \<open>
  Each penalty returns two lists of equal length; the lengths of the five blocks are
  5, three per body marker, one per kinematic degree of freedom, 1 and 5.
\<close>

lemma q_open_loop_loop_Inr:
  "q_open_loop_loop x q i acc = Inr r \<Longrightarrow>
     fst r = fst acc @ x \<and> length (snd r) = length (snd acc) + length x"
proof (induction x arbitrary: i acc)
  case Nil
  then show ?case by auto
next
  case (Cons v x)
  from Cons.prems obtain qi where
    rec: "q_open_loop_loop x q (Suc i) (fst acc @ [v], snd acc @ [qi]) = Inr r"
    by (auto simp: bind_err_Inr_iff)
  from Cons.IH [OF rec] show ?case by auto
qed

lemma penalty_q_open_loop_Inr:
  "penalty_q_open_loop x q = Inr r \<Longrightarrow> fst r = x \<and> length (snd r) = length x"
  using q_open_loop_loop_Inr [of x q 0 "([], [])" r] by (simp add: penalty_q_open_loop_def)

lemma theta_pivot_penalty_lengths:
  "theta_pivot_penalty q = Inr r \<Longrightarrow> length (fst r) = 1 \<and> length (snd r) = 1"
  by (auto simp: theta_pivot_penalty_def Let_def split: if_splits)

lemma penalty_rotation_matrix_lengths:
  "length (fst (penalty_rotation_matrix self q)) = 5 \<and> length (snd (penalty_rotation_matrix self q)) = 5"
  by (simp add: penalty_rotation_matrix_def Let_def)

lemma length_concat_to_array: "length (concat (map to_array ms)) = 3 * length ms"
  by (induction ms) auto

lemma length_vect_pos_markers_of: "length (vect_pos_markers_of bm q) = 3 * length (markers_at bm q)"
  by (simp add: vect_pos_markers_of_def length_concat_to_array)

lemma index_from_bound: "index_from n xs v = Inr k \<Longrightarrow> n \<le> k \<and> k < n + length xs"
  by (induction xs arbitrary: n) (auto split: if_splits, fastforce+)

lemma py_index_bound: "py_index xs v = Inr k \<Longrightarrow> k < length xs"
  using index_from_bound [of 0 xs v k] by (simp add: py_index_def)

lemma py_slice_len3: "a * 3 + 3 \<le> length v \<Longrightarrow> length (py_slice v (a * 3) (a * 3 + 3)) = 3"
  by (simp add: py_slice_def)

lemma open_loop_loop_lengths:
  assumes "table_markers_idx self = i0 # i1 # others"
      and "i0 < length (markers_model self)" "i1 < length (markers_model self)"
      and "3 * length (markers_model self) \<le> length v" "nrows wm = 3"
  shows "open_loop_loop self v wm names acc = Inr r \<Longrightarrow>
     length (fst r) = length (fst acc)
        + 3 * length [n \<leftarrow> names. n \<noteq> markers_model self ! i0 \<and> n \<noteq> markers_model self ! i1]
     \<and> length (snd r) = length (snd acc)
        + 3 * length [n \<leftarrow> names. n \<noteq> markers_model self ! i0 \<and> n \<noteq> markers_model self ! i1]"
proof (induction names arbitrary: acc)
  case Nil
  then show ?case by auto
next
  case (Cons name names)
  show ?case
  proof (cases "name \<noteq> markers_model self ! i0 \<and> name \<noteq> markers_model self ! i1")
    case False
    with Cons.prems assms(1-3)
    have "open_loop_loop self v wm names acc = Inr r"
      by (auto simp: py_nth_def split: if_splits)
    from Cons.IH [OF this] False show ?thesis by auto
  next
    case True
    with Cons.prems assms(1-3) obtain k c where
      k: "py_index (markers_model self) name = Inr k" and c: "col wm k = Inr c"
      and rec: "open_loop_loop self v wm names
                  (fst acc @ py_slice v (k * 3) (k * 3 + 3), snd acc @ c) = Inr r"
      by (auto simp: py_nth_def bind_err_Inr_iff Let_def split: if_splits)
    from py_index_bound [OF k] assms(4) have "k * 3 + 3 \<le> length v" by simp
    then have l1: "length (py_slice v (k * 3) (k * 3 + 3)) = 3" by (rule py_slice_len3)
    from c assms(5) have l2: "length c = 3" by (auto simp: col_def split: if_splits)
    from Cons.IH [OF rec] True l1 l2 show ?thesis by simp
  qed
qed

lemma ik_blocks_Inr:
  assumes "ik_blocks self x p tm wm q_init = Inr blocks"
  shows "\<exists>new_x b0 b1 b2 b3.
           new_x_of self x p = Inr new_x
           \<and> penalty_table_markers self (vect_pos_markers_of (biorbd_model self) new_x) tm = Inr b0
           \<and> penalty_open_loop_markers self (vect_pos_markers_of (biorbd_model self) new_x) wm = Inr b1
           \<and> penalty_q_open_loop x q_init = Inr b2
           \<and> theta_pivot_penalty new_x = Inr b3
           \<and> blocks = [b0, b1, b2, b3, penalty_rotation_matrix self new_x]"
  using assms unfolding ik_blocks_def Let_def bind_err_Inr_iff by blast

lemma map2_replicate:
  "length d = n \<Longrightarrow> map2 (\<lambda>a w. a * w) d (replicate n w) = map (\<lambda>a. a * w) d"
  by (induction d arbitrary: n) auto

lemma residual_append:
  "length a = length b \<Longrightarrow>
     map2 (\<lambda>m t. m - t) (a @ c) (b @ d) = residual (a, b) @ map2 (\<lambda>m t. m - t) c d"
  by (simp add: residual_def)

lemma length_residual: "length (fst b) = length (snd b) \<Longrightarrow> length (residual b) = length (fst b)"
  by (simp add: residual_def)

lemma build_weight_list_Inr_eq:
  assumes "build_weight_list w closed_names tracked_names n m = Inr wl"
  shows "wl = replicate (nat (int (length closed_names) * 3 - 1)) (w ! 0)
            @ replicate (nat (int (length [i \<leftarrow> tracked_names. i \<notin> set closed_names]) * 3)) (w ! 1)
            @ replicate (nat (int n - int m)) (w ! 3) @ [w ! 2] @ replicate 5 (w ! 4)"
  using assms
  by (auto simp: build_weight_list_def bind_err_Inr_iff py_nth_def py_repeat_def Let_def
           split: if_splits)

lemma weighted_blocks:
  assumes l0: "length (fst b0) = length (snd b0)" and l1: "length (fst b1) = length (snd b1)"
      and l2: "length (fst b2) = length (snd b2)" and l3: "length (fst b3) = length (snd b3)"
      and l4: "length (fst b4) = length (snd b4)"
      and wl: "wl = replicate (length (fst b0)) w0 @ replicate (length (fst b1)) w1
                    @ replicate (length (fst b2)) w3 @ replicate (length (fst b3)) w2
                    @ replicate (length (fst b4)) w4"
  shows "bind_err (np_binop (\<lambda>m t. m - t) (concat (map fst [b0, b1, b2, b3, b4]))
                                            (concat (map snd [b0, b1, b2, b3, b4])))
           (\<lambda>diff. bind_err (np_binop (\<lambda>d w. d * w) diff wl) (\<lambda>r. Inr (Some r)))
         = Inr (Some (map (\<lambda>r. r * w0) (residual b0) @ map (\<lambda>r. r * w1) (residual b1)
                      @ map (\<lambda>r. r * w3) (residual b2) @ map (\<lambda>r. r * w2) (residual b3)
                      @ map (\<lambda>r. r * w4) (residual b4)))"
proof -
  have d: "map2 (\<lambda>m t. m - t) (concat (map fst [b0, b1, b2, b3, b4]))
                                 (concat (map snd [b0, b1, b2, b3, b4]))
           = residual b0 @ residual b1 @ residual b2 @ residual b3 @ residual b4"
    using l0 l1 l2 l3 l4 by (simp add: residual_def)
  have m: "map2 (\<lambda>d w. d * w)
             (residual b0 @ residual b1 @ residual b2 @ residual b3 @ residual b4) wl
           = map (\<lambda>r. r * w0) (residual b0) @ map (\<lambda>r. r * w1) (residual b1)
             @ map (\<lambda>r. r * w3) (residual b2) @ map (\<lambda>r. r * w2) (residual b3)
             @ map (\<lambda>r. r * w4) (residual b4)"
    unfolding wl using l0 l1 l2 l3 l4
    by (simp add: length_residual map2_replicate)
  show ?thesis
    using l0 l1 l2 l3 l4 d m by (simp add: np_binop_def wl length_residual)
qed

lemma penalty_table_markers_len:
  assumes "table_markers_idx self = i0 # i1 # others"
      and "i0 * 3 + 3 \<le> length v" and "i1 * 3 + 3 \<le> length v"
      and "nrows t = 3" and "ncols t = 2"
  shows "penalty_table_markers self v t = Inr b \<Longrightarrow> length (fst b) = 5 \<and> length (snd b) = 5"
  using assms
  by (auto simp: penalty_table_markers_def py_nth_def py_slice3 col_def col_upto_def Let_def)

lemma np_concatenate5:
  "np_concatenate [a, b, c, d, e] =
     (if ncols d = ncols e \<and> ncols c = ncols d \<and> ncols b = ncols c \<and> ncols a = ncols b
      then Inr (vstack2 a (vstack2 b (vstack2 c (vstack2 d e))))
      else Inl ValueError)"
  by (auto simp: vstack2_def)

lemma vstack2_cell:
  "nrows (vstack2 a b) = nrows a + nrows b"
  "ncols (vstack2 a b) = ncols a"
  "cell (vstack2 a b) i j = (if i < nrows a then cell a i j else cell b (i - nrows a) j)"
  "nrows (scale_array a w) = nrows a"
  "ncols (scale_array a w) = ncols a"
  "cell (scale_array a w) i j = cell a i j * w"
  by (simp_all add: vstack2_def scale_array_def)

lemma build_weight_list_Inr_length:
  "build_weight_list w closed_names tracked_names n m = Inr wl \<Longrightarrow> 5 \<le> length w"
  by (auto simp: build_weight_list_def bind_err_Inr_iff py_nth_def Let_def split: if_splits)

lemma ik_jacobian_eq:
  assumes "5 \<le> length w"
  shows "ik_jacobian jm self y bm w =
     (if ncols (marker_jacobian_theta jm y (q_parameter_index self))
           = ncols (rotation_matrix_jacobian jm y bm (segment_id_with_vertical_z self)
                      (q_parameter_index self))
         \<and> ncols (jacobian_q_continuity jm y (q_parameter_index self))
           = ncols (marker_jacobian_theta jm y (q_parameter_index self))
         \<and> ncols (marker_jacobian_model jm y bm (model_markers_idx self) (q_parameter_index self))
           = ncols (jacobian_q_continuity jm y (q_parameter_index self))
         \<and> ncols (marker_jacobian_table jm y bm (table_markers_idx self) (q_parameter_index self))
           = ncols (marker_jacobian_model jm y bm (model_markers_idx self) (q_parameter_index self))
      then Inr (vstack2 (scale_array (marker_jacobian_table jm y bm (table_markers_idx self)
                                        (q_parameter_index self)) (w ! 0))
               (vstack2 (scale_array (marker_jacobian_model jm y bm (model_markers_idx self)
                                        (q_parameter_index self)) (w ! 1))
               (vstack2 (scale_array (jacobian_q_continuity jm y (q_parameter_index self)) (w ! 3))
               (vstack2 (scale_array (marker_jacobian_theta jm y (q_parameter_index self)) (w ! 2))
                        (scale_array (rotation_matrix_jacobian jm y bm
                                        (segment_id_with_vertical_z self)
                                        (q_parameter_index self)) (w ! 4))))))
      else Inl ValueError)"
  using assms
  by (auto simp: ik_jacobian_def Let_def py_nth_def np_concatenate5 vstack2_cell
           simp del: np_concatenate.simps)

lemma objective_blocks:
  assumes blocks: "ik_blocks self x p tm wm q_init = Inr [b0, b1, b2, b3, b4]"
      and idx: "table_markers_idx self = i0 # i1 # others"
               "i0 < length (markers_model self)" "i1 < length (markers_model self)"
      and pts: "\<forall>q. length (markers_model self) \<le> length (markers_at (biorbd_model self) q)"
      and shp: "nrows tm = 3" "ncols tm = 2" "nrows wm = 3"
      and built: "build_weight_list w (closed_loop_markers self) (tracked_markers self) guess_rows
                    (length (parameter_dofs self)) = Inr wl"
      and cfg: "length (closed_loop_markers self) = 2"
               "length [i \<leftarrow> tracked_markers self. i \<notin> set (closed_loop_markers self)]
                  = length [n \<leftarrow> markers_model self.
                              n \<noteq> markers_model self ! i0 \<and> n \<noteq> markers_model self ! i1]"
               "int guess_rows - int (length (parameter_dofs self)) = int (length x)"
      and solver: "ik_solver self = ''leastsquare'' \<and> wl = weight_list_param self
                   \<or> ik_solver self = ''ipopt'' \<and> wl = weight_list_ik self"
  shows "objective_ik_list self x p tm wm q_init =
           Inr (Some (map (\<lambda>r. r * w ! 0) (residual b0) @ map (\<lambda>r. r * w ! 1) (residual b1)
                      @ map (\<lambda>r. r * w ! 3) (residual b2) @ map (\<lambda>r. r * w ! 2) (residual b3)
                      @ map (\<lambda>r. r * w ! 4) (residual b4)))"
proof -
  from ik_blocks_Inr [OF blocks] obtain new_x where
    t: "penalty_table_markers self (vect_pos_markers_of (biorbd_model self) new_x) tm = Inr b0"
    and o: "penalty_open_loop_markers self (vect_pos_markers_of (biorbd_model self) new_x) wm = Inr b1"
    and c: "penalty_q_open_loop x q_init = Inr b2"
    and v: "theta_pivot_penalty new_x = Inr b3"
    and r: "b4 = penalty_rotation_matrix self new_x"
    by auto
  let ?v = "vect_pos_markers_of (biorbd_model self) new_x"
  have lv: "3 * length (markers_model self) \<le> length ?v"
    using pts by (simp add: length_vect_pos_markers_of)
  with idx have "i0 * 3 + 3 \<le> length ?v" "i1 * 3 + 3 \<le> length ?v" by simp_all
  from penalty_table_markers_len [OF idx(1) this shp(1,2)] t
  have l0: "length (fst b0) = 5" "length (snd b0) = 5" by auto
  let ?n = "length [n \<leftarrow> markers_model self.
                      n \<noteq> markers_model self ! i0 \<and> n \<noteq> markers_model self ! i1]"
  from open_loop_loop_lengths [OF idx lv shp(3), of "markers_model self" "([], [])" b1] o
  have l1: "length (fst b1) = 3 * ?n" "length (snd b1) = 3 * ?n"
    by (simp_all add: penalty_open_loop_markers_def)
  from penalty_q_open_loop_Inr [OF c]
  have l2: "length (fst b2) = length x" "length (snd b2) = length x" by simp_all
  from theta_pivot_penalty_lengths [OF v]
  have l3: "length (fst b3) = 1" "length (snd b3) = 1" by simp_all
  from penalty_rotation_matrix_lengths [of self new_x] r
  have l4: "length (fst b4) = 5" "length (snd b4) = 5" by simp_all
  have wl: "wl = replicate (length (fst b0)) (w ! 0) @ replicate (length (fst b1)) (w ! 1)
                 @ replicate (length (fst b2)) (w ! 3) @ replicate (length (fst b3)) (w ! 2)
                 @ replicate (length (fst b4)) (w ! 4)"
    using build_weight_list_Inr_eq [OF built] cfg l0 l1 l2 l3 l4
    by (simp add: nat_diff_distrib')
  from weighted_blocks [OF _ _ _ _ _ wl] l0 l1 l2 l3 l4
  have "bind_err (np_binop (\<lambda>m t. m - t) (concat (map fst [b0, b1, b2, b3, b4]))
                                            (concat (map snd [b0, b1, b2, b3, b4])))
           (\<lambda>diff. bind_err (np_binop (\<lambda>d w. d * w) diff wl) (\<lambda>r. Inr (Some r)))
         = Inr (Some (map (\<lambda>r. r * w ! 0) (residual b0) @ map (\<lambda>r. r * w ! 1) (residual b1)
                      @ map (\<lambda>r. r * w ! 3) (residual b2) @ map (\<lambda>r. r * w ! 2) (residual b3)
                      @ map (\<lambda>r. r * w ! 4) (residual b4)))"
    by simp
  with solver blocks show ?thesis
    by (auto simp: objective_ik_list_def Let_def)
qed

text \<open>
  C4. The residual vector of \<^verbatim>\<open>objective_ik_list\<close> is the concatenation, in this order, of
  the residual of \<^verbatim>\<open>penalty_table_markers\<close> (closed-loop table markers), of
  \<^verbatim>\<open>penalty_open_loop_markers\<close>, of \<^verbatim>\<open>penalty_q_open_loop\<close> (continuity), of
  \<^verbatim>\<open>theta_pivot_penalty\<close> (pivot) and of \<^verbatim>\<open>penalty_rotation_matrix\<close>, every element of a
  block multiplied by the weight of that block: entries 0, 1, 3, 2 and 4 of the weight
  vector. And \<^verbatim>\<open>ik_jacobian\<close> called with that weight vector returns the vertical stack of
  the table, open-loop, continuity, pivot and rotation Jacobians, in that same order, each
  multiplied by that same entry, whenever the five blocks agree on their number of columns
  (it raises ValueError otherwise). The weight list is the one the constructor builds from
  the weight vector; the constructor lays it out for two closed-loop markers, three entries
  per tracked marker that is not a closed-loop marker, and one entry per kinematic degree
  of freedom, and the statement is for a calibration object whose model and pose have
  these sizes.
\<close>

theorem ik_residual_and_jacobian_blocks:
  assumes pose: "new_x_of self x p = Inr new_x"
      and table: "penalty_table_markers self (vect_pos_markers_of (biorbd_model self) new_x) tm
                    = Inr tab"
      and thorax: "penalty_open_loop_markers self (vect_pos_markers_of (biorbd_model self) new_x) wm
                    = Inr tho"
      and continuity: "penalty_q_open_loop x q_init = Inr cont"
      and pivot: "theta_pivot_penalty new_x = Inr piv"
      and idx: "table_markers_idx self = i0 # i1 # others"
               "i0 < length (markers_model self)" "i1 < length (markers_model self)"
      and pts: "\<forall>q. length (markers_model self) \<le> length (markers_at (biorbd_model self) q)"
      and shp: "nrows tm = 3" "ncols tm = 2" "nrows wm = 3"
      and built: "build_weight_list w (closed_loop_markers self) (tracked_markers self) guess_rows
                    (length (parameter_dofs self)) = Inr wl"
      and cfg: "length (closed_loop_markers self) = 2"
               "length [i \<leftarrow> tracked_markers self. i \<notin> set (closed_loop_markers self)]
                  = length [n \<leftarrow> markers_model self.
                              n \<noteq> markers_model self ! i0 \<and> n \<noteq> markers_model self ! i1]"
               "int guess_rows - int (length (parameter_dofs self)) = int (length x)"
      and solver: "ik_solver self = ''leastsquare'' \<and> wl = weight_list_param self
                   \<or> ik_solver self = ''ipopt'' \<and> wl = weight_list_ik self"
  shows "objective_ik_list self x p tm wm q_init =
           Inr (Some (map (\<lambda>r. r * w ! 0) (residual tab)
                      @ map (\<lambda>r. r * w ! 1) (residual tho)
                      @ map (\<lambda>r. r * w ! 3) (residual cont)
                      @ map (\<lambda>r. r * w ! 2) (residual piv)
                      @ map (\<lambda>r. r * w ! 4) (residual (penalty_rotation_matrix self new_x))))
         \<and> (\<forall>y bm.
              ik_jacobian jm self y bm w =
                (if ncols (marker_jacobian_theta jm y (q_parameter_index self))
                      = ncols (rotation_matrix_jacobian jm y bm (segment_id_with_vertical_z self)
                                 (q_parameter_index self))
                    \<and> ncols (jacobian_q_continuity jm y (q_parameter_index self))
                      = ncols (marker_jacobian_theta jm y (q_parameter_index self))
                    \<and> ncols (marker_jacobian_model jm y bm (model_markers_idx self)
                               (q_parameter_index self))
                      = ncols (jacobian_q_continuity jm y (q_parameter_index self))
                    \<and> ncols (marker_jacobian_table jm y bm (table_markers_idx self)
                               (q_parameter_index self))
                      = ncols (marker_jacobian_model jm y bm (model_markers_idx self)
                                 (q_parameter_index self))
                 then Inr
                   (vstack2 (scale_array (marker_jacobian_table jm y bm (table_markers_idx self)
                                            (q_parameter_index self)) (w ! 0))
                   (vstack2 (scale_array (marker_jacobian_model jm y bm (model_markers_idx self)
                                            (q_parameter_index self)) (w ! 1))
                   (vstack2 (scale_array (jacobian_q_continuity jm y (q_parameter_index self))
                               (w ! 3))
                   (vstack2 (scale_array (marker_jacobian_theta jm y (q_parameter_index self))
                               (w ! 2))
                            (scale_array (rotation_matrix_jacobian jm y bm
                                            (segment_id_with_vertical_z self)
                                            (q_parameter_index self)) (w ! 4))))))
                 else Inl ValueError))"
proof -
  have blocks: "ik_blocks self x p tm wm q_init
                  = Inr [tab, tho, cont, piv, penalty_rotation_matrix self new_x]"
    using pose table thorax continuity pivot by (simp add: ik_blocks_def Let_def)
  note r = objective_blocks [OF blocks idx pts shp built cfg solver]
  from build_weight_list_Inr_length [OF built] have "5 \<le> length w" .
  from ik_jacobian_eq [OF this] r show ?thesis by blast
qed

text \<open>
  On the tilted model with weights \<open>[1, 2, 3, 4, 5]\<close>, the pose \<open>3\<close> and the previous pose
  \<open>0\<close>: the table block is \<open>[1, 2, 3, 4, 5]\<close>, the rotation block \<open>[6, 7, 2, 5, 7]\<close>, and the
  residual carries them first and last, scaled by 1 and by 5; rows 0 to 4 of the Jacobian
  are the table rows, rows 10 to 14 the rotation rows.
\<close>

theorem ik_residual_and_jacobian_blocks_witness:
  "new_x_of kcc_tilt [3] (Some [0]) = Inr [0, 3]
   \<and> penalty_table_markers kcc_tilt (vect_pos_markers_of bm_tilt [0, 3]) (np_zeros2 3 2)
       = Inr ([1, 2, 3, 4, 5], [0, 0, 0, 0, 0])
   \<and> penalty_open_loop_markers kcc_tilt (vect_pos_markers_of bm_tilt [0, 3]) wm_ex
       = Inr ([0, 0, 0], [1, 0, 0])
   \<and> penalty_q_open_loop [3] [0] = Inr ([3], [0])
   \<and> theta_pivot_penalty [0, 3] = Inr ([3], [theta_part1_3_lim])
   \<and> penalty_rotation_matrix kcc_tilt [0, 3] = ([6, 7, 2, 5, 7], [0, 0, 0, 0, 0])
   \<and> build_weight_list [1, 2, 3, 4, 5] (closed_loop_markers kcc_tilt) (tracked_markers kcc_tilt) 2
         (length (parameter_dofs kcc_tilt)) = Inr (weight_list_param kcc_tilt)
   \<and> ik_solver kcc_tilt = ''leastsquare''
   \<and> objective_ik_list kcc_tilt [3] (Some [0]) (np_zeros2 3 2) wm_ex [0]
       = Inr (Some [1, 2, 3, 4, 5, - 2, 0, 0, 12, (3 - theta_part1_3_lim) * 3,
                    30, 35, 10, 25, 35])
   \<and> map_sum id (\<lambda>J. (nrows J, ncols J, map (\<lambda>i. cell J i 0) [0, 4, 5, 7, 8, 9, 10, 14]))
        (ik_jacobian jm_blocks kcc_tilt [3] bm_tilt [1, 2, 3, 4, 5])
       = Inr (15, 1, [1, 1, 20, 20, 4000, 30000, 500, 500])"
proof -
  have n: "new_x_of kcc_tilt [3] (Some [0]) = Inr [0, 3]"
    by (simp add: new_x_of_def kcc_tilt_def kcc_ex_def bm_tilt_def bm_ex_def np_put_def
          py_nth_def Let_def eval_nat_numeral)
  have bm: "biorbd_model kcc_tilt = bm_tilt" by (simp add: kcc_tilt_def)
  have t: "penalty_table_markers kcc_tilt (vect_pos_markers_of bm_tilt [0, 3]) (np_zeros2 3 2)
       = Inr ([1, 2, 3, 4, 5], [0, 0, 0, 0, 0])"
    by (simp add: penalty_table_markers_def vect_pos_markers_of_def kcc_tilt_def kcc_ex_def
          bm_tilt_def bm_ex_def np_zeros2_def col_def col_upto_def py_slice_def py_nth_def
          to_array_def Let_def upt_rec eval_nat_numeral)
  have o: "penalty_open_loop_markers kcc_tilt (vect_pos_markers_of bm_tilt [0, 3]) wm_ex
       = Inr ([0, 0, 0], [1, 0, 0])"
    by (simp add: penalty_open_loop_markers_def vect_pos_markers_of_def kcc_tilt_def kcc_ex_def
          bm_tilt_def bm_ex_def wm_ex_def col_def py_index_def py_slice_def py_nth_def
          to_array_def Let_def upt_rec eval_nat_numeral)
  have c: "penalty_q_open_loop [3] [0] = Inr ([3], [0])"
    by (simp add: penalty_q_open_loop_def py_nth_def)
  have v: "theta_pivot_penalty [0, 3] = Inr ([3], [theta_part1_3_lim])"
    using theta_lim_bounds by (simp add: theta_pivot_penalty_def Let_def)
  have ro: "penalty_rotation_matrix kcc_tilt [0, 3] = ([6, 7, 2, 5, 7], [0, 0, 0, 0, 0])"
    by (simp add: penalty_rotation_matrix_def kcc_tilt_def kcc_ex_def bm_tilt_def bm_ex_def
          Let_def eval_nat_numeral)
  have w: "build_weight_list [1, 2, 3, 4, 5] (closed_loop_markers kcc_tilt)
             (tracked_markers kcc_tilt) 2 (length (parameter_dofs kcc_tilt))
           = Inr (weight_list_param kcc_tilt)"
    by (simp add: build_weight_list_def kcc_tilt_def kcc_ex_def py_nth_def py_repeat_def
          eval_nat_numeral)
  have s: "ik_solver kcc_tilt = ''leastsquare''" by (simp add: kcc_tilt_def kcc_ex_def)
  note th = ik_residual_and_jacobian_blocks [where self = kcc_tilt and x = "[3]"
      and p = "Some [0]" and new_x = "[0, 3]" and tm = "np_zeros2 3 2" and wm = wm_ex
      and q_init = "[0]" and ?i0.0 = 1 and ?i1.0 = 2 and others = "[]"
      and w = "[1, 2, 3, 4, 5]" and guess_rows = 2 and wl = "weight_list_param kcc_tilt"
      and jm = jm_blocks, OF n t [folded bm] o [folded bm] c v _ _ _ _ _ _ _ w]
  have r: "objective_ik_list kcc_tilt [3] (Some [0]) (np_zeros2 3 2) wm_ex [0]
       = Inr (Some [1, 2, 3, 4, 5, - 2, 0, 0, 12, (3 - theta_part1_3_lim) * 3,
                    30, 35, 10, 25, 35])
     \<and> map_sum id (\<lambda>J. (nrows J, ncols J, map (\<lambda>i. cell J i 0) [0, 4, 5, 7, 8, 9, 10, 14]))
        (ik_jacobian jm_blocks kcc_tilt [3] bm_tilt [1, 2, 3, 4, 5])
       = Inr (15, 1, [1, 1, 20, 20, 4000, 30000, 500, 500])"
    using th s ro
    by (simp add: kcc_tilt_def kcc_ex_def bm_tilt_def bm_ex_def wm_ex_def np_zeros2_def
          residual_def jm_blocks_def vstack2_cell)
  with n t o c v ro w s show ?thesis by simp
qed

end
